theory Spec2Isabelle
  imports Complex_Main
begin

section \<open>Shared contract of the dynamics solvers\<close>

text \<open>
  The two solvers of the repository, \<open>CartpoleDynamicsSolver\<close> and
  \<open>PinocchioDynamicsSolver\<close>, derive from one base class that owns the three dimension
  fields (\<open>num_positions_\<close>, \<open>num_velocities_\<close>, \<open>num_controls_\<close> in the source; a
  member is written here without its trailing underscore, and the buffers \<open>fx_\<close> and
  \<open>fu_\<close> are \<open>fx_buf\<close> and \<open>fu_buf\<close>). A \<open>double\<close> is modelled as a \<open>real\<close>
  (rounding is outside the model), an \<open>Eigen::VectorXd\<close> as a \<open>real list\<close> and an
  \<open>Eigen::MatrixXd\<close> as the list of its rows.

  \<open>ThrowPretty\<close> throws the one exception type of the library; the model keeps one
  constructor per throw site. Eigen's coefficient and block accessors assert their bounds
  (\<open>eigen_assert\<close>) and are undefined beyond them in a release build: the model makes that
  fault a value of its own, \<open>EigenAssertion\<close>, which no \<open>ThrowPretty\<close> produces.
\<close>

datatype error =
    NotACartpole
  | UnknownBaseType
  | WrongStateSize nat nat nat
  | BadArgumentPosition
  | EigenAssertion

text \<open>
  The specification names two error kinds. A configuration error is a throw of
  \<open>AssignScene\<close>; a dimension error is a throw of the size and selector checks of
  \<open>StateDelta\<close> and \<open>dStateDelta\<close> (\<open>WrongStateSize\<close>, \<open>BadArgumentPosition\<close>).
\<close>

fun is_ConfigurationError :: "error \<Rightarrow> bool" where
  "is_ConfigurationError NotACartpole = True"
| "is_ConfigurationError UnknownBaseType = True"
| "is_ConfigurationError (WrongStateSize a b c) = False"
| "is_ConfigurationError BadArgumentPosition = False"
| "is_ConfigurationError EigenAssertion = False"

datatype BaseType = FIXED | FLOATING | PLANAR

datatype ArgumentPosition = ARG0 | ARG1 | ARG2 | ARG3 | ARG4

record dynamics_solver =
  num_positions :: nat
  num_velocities :: nat
  num_controls :: nat

text \<open>
  Modelled from the spec: \<open>get_num_state_derivative\<close> of the base class, which is not
  among the sources; the tangent space has dimension \<open>ndx = 2 * num_velocities\<close>.
\<close>

definition get_num_state_derivative :: "'a dynamics_solver_scheme \<Rightarrow> nat" where
  "get_num_state_derivative s = 2 * num_velocities s"

section \<open>The external engine and the scene\<close>

text \<open>
  The articulated-body engine is an external library. Its model object is a parameter of
  the development: the two dimensions \<open>nq\<close> and \<open>nv\<close> and the routines the solver calls.
  A routine that writes into an output reference the solver passes (a vector segment or a
  matrix block) is given by the coefficient it writes at each index of that reference;
  the first two list arguments are the configuration and the velocity (or, for the
  manifold operators, the two configurations \<open>q0\<close> and \<open>q1\<close>, respectively the
  configuration and the tangent increment).
\<close>

record pinocchio_model =
  nq :: nat
  nv :: nat
  aba :: "real list \<Rightarrow> real list \<Rightarrow> real list \<Rightarrow> nat \<Rightarrow> real"
  aba_partial_dq :: "real list \<Rightarrow> real list \<Rightarrow> real list \<Rightarrow> nat \<Rightarrow> nat \<Rightarrow> real"
  aba_partial_dv :: "real list \<Rightarrow> real list \<Rightarrow> real list \<Rightarrow> nat \<Rightarrow> nat \<Rightarrow> real"
  aba_partial_dtau :: "real list \<Rightarrow> real list \<Rightarrow> real list \<Rightarrow> nat \<Rightarrow> nat \<Rightarrow> real"
  difference :: "real list \<Rightarrow> real list \<Rightarrow> nat \<Rightarrow> real"
  dDifference :: "real list \<Rightarrow> real list \<Rightarrow> ArgumentPosition \<Rightarrow> nat \<Rightarrow> nat \<Rightarrow> real"
  integrate :: "real list \<Rightarrow> real list \<Rightarrow> nat \<Rightarrow> real"

text \<open>
  The scene is read through its kinematic tree: the number of controlled joints, the
  controlled base type, and the robot description, which stands here for the model the
  engine's builder makes of it.
\<close>

record scene =
  GetNumControlledJoints :: int
  GetControlledBaseType :: BaseType
  GetRobotModel :: pinocchio_model

section \<open>The analytic cart-pole solver\<close>

record cartpole_dynamics_solver = dynamics_solver +
  m_c :: real
  m_p :: real
  l :: real
  g :: real

text \<open>
  The constructor fixes the three dimensions. The four constants are filled in by the
  initializer, which is not among the sources; they are the constructor's parameters here.
\<close>

definition CartpoleDynamicsSolver :: "real \<Rightarrow> real \<Rightarrow> real \<Rightarrow> real \<Rightarrow> cartpole_dynamics_solver" where
  "CartpoleDynamicsSolver mc mp len grav =
     \<lparr>num_positions = 2, num_velocities = 2, num_controls = 1,
      m_c = mc, m_p = mp, l = len, g = grav\<rparr>"

text \<open>
  A method that may throw and may change the solver returns the outcome together with the
  solver as the throw or the return leaves it.
\<close>

definition Cartpole_AssignScene ::
  "scene \<Rightarrow> cartpole_dynamics_solver \<Rightarrow> (error + unit) \<times> cartpole_dynamics_solver" where
  "Cartpole_AssignScene scene_in s =
     (let num_positions_in = GetNumControlledJoints scene_in
      in if num_positions_in \<noteq> 2 then (Inl NotACartpole, s) else (Inr (), s))"

definition Cartpole_f :: "cartpole_dynamics_solver \<Rightarrow> real list \<Rightarrow> real list \<Rightarrow> error + real list" where
  "Cartpole_f s x u =
     (if length x < 4 \<or> length u < 1 then Inl EigenAssertion
      else
        let theta = x ! 1;
            xdot = x ! 2;
            thetadot = x ! 3;
            sin_theta = sin theta;
            cos_theta = cos theta;
            theta_dot_squared = thetadot * thetadot
        in Inr [xdot, thetadot,
             (u ! 0 + m_p s * sin_theta * (l s * theta_dot_squared + g s * cos_theta)) /
               (m_c s + m_p s * sin_theta * sin_theta),
             - (l s * m_p s * cos_theta * sin_theta * theta_dot_squared + u ! 0 * cos_theta +
                 (m_c s + m_p s) * g s * sin_theta) /
               (l s * m_c s + l s * m_p s * sin_theta * sin_theta)])"

definition Cartpole_fx :: "cartpole_dynamics_solver \<Rightarrow> real list \<Rightarrow> real list \<Rightarrow> error + real list list" where
  "Cartpole_fx s x u =
     (if length x < 4 \<or> length u < 1 then Inl EigenAssertion
      else
        let theta = x ! 1;
            xdot = x ! 2;
            tdot = x ! 3;
            sin_theta = sin theta;
            cos_theta = cos theta
        in Inr
          [[0, 0, 1, 0],
           [0, 0, 0, 1],
           [0,
            - 2 * m_p s * (m_p s * (g s * cos_theta + l s * tdot * tdot) * sin_theta + u ! 0) *
                sin_theta * cos_theta / (m_c s + m_p s * sin_theta * sin_theta) ^ 2 +
              (- g s * m_p s * sin_theta * sin_theta +
                 m_p s * (g s * cos_theta + l s * tdot * tdot) * cos_theta) /
                (m_c s + m_p s * sin_theta * sin_theta),
            0,
            2 * l s * m_p s * tdot * sin_theta / (m_c s + m_p s * sin_theta * sin_theta)],
           [0,
            - 2 * l s * m_p s *
                (- g s * (m_c s + m_p s) * sin_theta - l s * m_p s * tdot * tdot * sin_theta * cos_theta -
                   u ! 0 * cos_theta) *
                sin_theta * cos_theta / (l s * m_c s + l s * m_p s * sin_theta * sin_theta) ^ 2 +
              (- g s * (m_c s + m_p s) * cos_theta + l s * m_p s * tdot * tdot * sin_theta * sin_theta -
                 l s * m_p s * tdot * tdot * cos_theta * cos_theta + u ! 0 * sin_theta) /
                (l s * m_c s + l s * m_p s * sin_theta * sin_theta),
            0,
            - 2 * l s * m_p s * tdot * sin_theta * cos_theta /
              (l s * m_c s + l s * m_p s * sin_theta * sin_theta)]])"

text \<open>
  \<open>fu\<close> fills a \<open>Vector4d\<close> and returns it as a matrix: four rows of one column. It
  indexes \<open>x\<close> as \<open>f\<close> does, but never \<open>u\<close>.
\<close>

definition Cartpole_fu :: "cartpole_dynamics_solver \<Rightarrow> real list \<Rightarrow> real list \<Rightarrow> error + real list list" where
  "Cartpole_fu s x u =
     (if length x < 4 then Inl EigenAssertion
      else
        let theta = x ! 1;
            xdot = x ! 2;
            tdot = x ! 3;
            sin_theta = sin theta;
            cos_theta = cos theta
        in Inr
          [[0], [0],
           [1 / (m_c s + m_p s * sin_theta * sin_theta)],
           [- cos_theta / (l s * m_c s + l s * m_p s * sin_theta * sin_theta)]])"

text \<open>
  The difference of two Eigen vectors asserts equal sizes; the angle is not wrapped (the
  \<open>fmod\<close> line of the source is commented out).
\<close>

definition Cartpole_StateDelta :: "real list \<Rightarrow> real list \<Rightarrow> error + real list" where
  "Cartpole_StateDelta x_1 x_2 =
     (if length x_1 \<noteq> length x_2 then Inl EigenAssertion
      else Inr (map2 (-) x_1 x_2))"

section \<open>Eigen segments and blocks\<close>

definition head :: "nat \<Rightarrow> 'a list \<Rightarrow> 'a list" where
  "head n v = take n v"

definition tail :: "nat \<Rightarrow> 'a list \<Rightarrow> 'a list" where
  "tail n v = drop (length v - n) v"

text \<open>Assignment to \<open>v.head(n)\<close> and to \<open>v.tail(n)\<close>, of a vector of size \<open>n\<close>.\<close>

definition set_head :: "nat \<Rightarrow> 'a list \<Rightarrow> 'a list \<Rightarrow> 'a list" where
  "set_head n w v = w @ drop n v"

definition set_tail :: "nat \<Rightarrow> 'a list \<Rightarrow> 'a list \<Rightarrow> 'a list" where
  "set_tail n w v = take (length v - n) v @ w"

definition rows :: "real list list \<Rightarrow> nat" where
  "rows M = length M"

definition cols :: "real list list \<Rightarrow> nat" where
  "cols M = (case M of [] \<Rightarrow> 0 | r # rs \<Rightarrow> length r)"

definition setZero :: "nat \<Rightarrow> nat \<Rightarrow> real list list" where
  "setZero r c = replicate r (replicate c 0)"

definition Identity :: "nat \<Rightarrow> nat \<Rightarrow> real list list" where
  "Identity r c = map (\<lambda>i. map (\<lambda>j. if i = j then 1 else 0) [0..<c]) [0..<r]"

text \<open>
  \<open>M.block(r, c, h, w)\<close> is the \<open>h \<times> w\<close> block whose top-left coefficient is \<open>(r, c)\<close>;
  Eigen asserts that it lies inside \<open>M\<close>. \<open>update_block\<close> rewrites each coefficient of
  the block from its position in the block and its old value, and leaves every other
  coefficient as it is.
\<close>

definition block_fits :: "nat \<Rightarrow> nat \<Rightarrow> nat \<Rightarrow> nat \<Rightarrow> real list list \<Rightarrow> bool" where
  "block_fits r c h w M = (r + h \<le> length M \<and> list_all (\<lambda>row. c + w \<le> length row) M)"

definition update_block ::
  "nat \<Rightarrow> nat \<Rightarrow> nat \<Rightarrow> nat \<Rightarrow> (nat \<Rightarrow> nat \<Rightarrow> real \<Rightarrow> real) \<Rightarrow> real list list \<Rightarrow> real list list" where
  "update_block r c h w upd M =
     map (\<lambda>i. map (\<lambda>j. if r \<le> i \<and> i < r + h \<and> c \<le> j \<and> j < c + w
                         then upd (i - r) (j - c) (M ! i ! j) else M ! i ! j)
                [0..<length (M ! i)])
         [0..<length M]"

section \<open>The generic articulated-body solver\<close>

text \<open>
  The engine's workspace \<open>pinocchio_data_\<close> belongs to the engine and is not a field
  here: each routine of the engine is a function of the model and of the arguments of the
  call.
\<close>

record pinocchio_dynamics_solver = dynamics_solver +
  model :: pinocchio_model
  xdot_analytic :: "real list"
  fx_buf :: "real list list"
  fu_buf :: "real list list"

definition Pinocchio_AssignScene ::
  "scene \<Rightarrow> pinocchio_dynamics_solver \<Rightarrow> (error + unit) \<times> pinocchio_dynamics_solver" where
  "Pinocchio_AssignScene scene_in s =
     (if GetControlledBaseType scene_in = FIXED then
        let s1 = s\<lparr>model := GetRobotModel scene_in\<rparr>;
            s2 = s1\<lparr>num_positions := nq (model s1)\<rparr>;
            s3 = s2\<lparr>num_velocities := nv (model s2)\<rparr>;
            s4 = s3\<lparr>num_controls := nv (model s3)\<rparr>;
            ndx = get_num_state_derivative s4;
            s5 = s4\<lparr>xdot_analytic := replicate ndx 0\<rparr>;
            s6 = s5\<lparr>fx_buf := setZero ndx ndx\<rparr>;
            s7 = s6\<lparr>fx_buf :=
                   update_block 0 (cols (fx_buf s6) - num_velocities s6)
                     (num_velocities s6) (num_velocities s6)
                     (\<lambda>i j old. if i = j then 1 else 0) (fx_buf s6)\<rparr>;
            s8 = s7\<lparr>fu_buf := setZero ndx (num_controls s7)\<rparr>
        in (Inr (), s8)
      else (Inl UnknownBaseType, s))"

text \<open>
  \<open>f\<close> passes \<open>x.head(num_positions_)\<close>, \<open>x.tail(num_velocities_)\<close> and \<open>u\<close> to the
  forward dynamics and writes both halves of \<open>xdot_analytic_\<close>. The acceleration \<open>ddq\<close>
  of the engine has \<open>nv\<close> coefficients, and Eigen asserts that the segment it is assigned
  to has as many. \<open>f\<close> checks no size itself: the only faults are Eigen's.
\<close>

definition Pinocchio_f ::
  "pinocchio_dynamics_solver \<Rightarrow> real list \<Rightarrow> real list \<Rightarrow>
     (error + real list) \<times> pinocchio_dynamics_solver" where
  "Pinocchio_f s x u =
     (let np = num_positions s; n = num_velocities s
      in if length x < np \<or> length x < n \<or> length (xdot_analytic s) < n \<or> nv (model s) \<noteq> n
         then (Inl EigenAssertion, s)
         else
           let ddq = map (aba (model s) (head np x) (tail n x) u) [0..<nv (model s)];
               b1 = set_head n (tail n x) (xdot_analytic s);
               b2 = set_tail n ddq b1
           in (Inr b2, s\<lparr>xdot_analytic := b2\<rparr>))"

text \<open>
  The one statement of \<open>ComputeDerivatives\<close>: the engine writes the three partial
  derivatives of the acceleration into \<open>fx_.block(nv, 0, nv, nv)\<close>,
  \<open>fx_.block(nv, nv, nv, nv)\<close> and \<open>fu_.bottomRightCorner(nv, nv)\<close>. The bodies of \<open>fx\<close>
  and \<open>fu\<close> repeat that statement word for word and return their buffer.
\<close>

definition Pinocchio_ComputeDerivatives ::
  "pinocchio_dynamics_solver \<Rightarrow> real list \<Rightarrow> real list \<Rightarrow>
     (error + unit) \<times> pinocchio_dynamics_solver" where
  "Pinocchio_ComputeDerivatives s x u =
     (let np = num_positions s; n = num_velocities s
      in if length x < np \<or> length x < n \<or>
            \<not> block_fits n 0 n n (fx_buf s) \<or> \<not> block_fits n n n n (fx_buf s) \<or>
            \<not> block_fits (rows (fu_buf s) - n) (cols (fu_buf s) - n) n n (fu_buf s)
         then (Inl EigenAssertion, s)
         else
           let q = head np x;
               v = tail n x;
               fx1 = update_block n 0 n n (\<lambda>i j old. aba_partial_dq (model s) q v u i j) (fx_buf s);
               fx2 = update_block n n n n (\<lambda>i j old. aba_partial_dv (model s) q v u i j) fx1;
               fu1 = update_block (rows (fu_buf s) - n) (cols (fu_buf s) - n) n n
                       (\<lambda>i j old. aba_partial_dtau (model s) q v u i j) (fu_buf s)
           in (Inr (), s\<lparr>fx_buf := fx2, fu_buf := fu1\<rparr>))"

definition Pinocchio_fx ::
  "pinocchio_dynamics_solver \<Rightarrow> real list \<Rightarrow> real list \<Rightarrow>
     (error + real list list) \<times> pinocchio_dynamics_solver" where
  "Pinocchio_fx s x u =
     (case Pinocchio_ComputeDerivatives s x u of
        (Inl e, s') \<Rightarrow> (Inl e, s')
      | (Inr ok, s') \<Rightarrow> (Inr (fx_buf s'), s'))"

definition Pinocchio_fu ::
  "pinocchio_dynamics_solver \<Rightarrow> real list \<Rightarrow> real list \<Rightarrow>
     (error + real list list) \<times> pinocchio_dynamics_solver" where
  "Pinocchio_fu s x u =
     (case Pinocchio_ComputeDerivatives s x u of
        (Inl e, s') \<Rightarrow> (Inl e, s')
      | (Inr ok, s') \<Rightarrow> (Inr (fu_buf s'), s'))"

text \<open>
  \<open>StateDelta\<close> checks both sizes first. \<open>dx\<close> is allocated with \<open>2 * num_velocities_\<close>
  coefficients and both halves are assigned before it is returned, so the zeros below
  stand for a content that is never read. The engine's \<open>difference\<close> is called with
  \<open>x_2\<close> first.
\<close>

definition Pinocchio_StateDelta ::
  "pinocchio_dynamics_solver \<Rightarrow> real list \<Rightarrow> real list \<Rightarrow> error + real list" where
  "Pinocchio_StateDelta s x_1 x_2 =
     (let np = num_positions s; n = num_velocities s
      in if length x_1 \<noteq> np + n \<or> length x_2 \<noteq> np + n
         then Inl (WrongStateSize (length x_1) (length x_2) (np + n))
         else
           let dx = replicate (2 * n) 0;
               dx1 = set_head n (map (difference (model s) (head np x_2) (head np x_1)) [0..<n]) dx;
               dx2 = set_tail n (map2 (-) (tail n x_1) (tail n x_2)) dx1
           in Inr dx2)"

definition Pinocchio_dStateDelta ::
  "pinocchio_dynamics_solver \<Rightarrow> real list \<Rightarrow> real list \<Rightarrow> ArgumentPosition \<Rightarrow>
     error + real list list" where
  "Pinocchio_dStateDelta s x_1 x_2 first_or_second =
     (let np = num_positions s; n = num_velocities s
      in if length x_1 \<noteq> np + n \<or> length x_2 \<noteq> np + n
         then Inl (WrongStateSize (length x_1) (length x_2) (np + n))
         else if first_or_second \<noteq> ARG0 \<and> first_or_second \<noteq> ARG1
         then Inl BadArgumentPosition
         else
           let J = Identity (2 * n) (2 * n)
           in if first_or_second = ARG0
              then Inr (update_block 0 0 n n
                         (\<lambda>i j old. dDifference (model s) (head np x_2) (head np x_1) ARG1 i j) J)
              else
                let J1 = update_block 0 0 n n
                           (\<lambda>i j old. dDifference (model s) (head np x_2) (head np x_1) ARG0 i j) J;
                    J2 = update_block (rows J1 - n) (cols J1 - n) n n (\<lambda>i j old. old * (- 1)) J1
                in Inr J2)"

text \<open>
  \<open>Integrate\<close> writes into the caller's \<open>xout\<close> and checks no size: the faults are
  Eigen's, when a segment is longer than its vector.
\<close>

definition Pinocchio_Integrate ::
  "pinocchio_dynamics_solver \<Rightarrow> real list \<Rightarrow> real list \<Rightarrow> real \<Rightarrow> real list \<Rightarrow>
     error + real list" where
  "Pinocchio_Integrate s x dx dt xout =
     (let np = num_positions s; n = num_velocities s;
          dx_times_dt = map (\<lambda>c. dt * c) dx
      in if length x < np \<or> length dx_times_dt < n \<or> length xout < np \<or>
            length xout < n \<or> length x < n
         then Inl EigenAssertion
         else
           let xout1 = set_head np
                         (map (integrate (model s) (head np x) (head n dx_times_dt)) [0..<np]) xout;
               xout2 = set_tail n (map2 (+) (tail n x) (tail n dx_times_dt)) xout1
           in Inr xout2)"

text \<open>A history of calls on one solver: each call leaves the solver to the next.\<close>

datatype call =
    Call_f "real list" "real list"
  | Call_fx "real list" "real list"
  | Call_fu "real list" "real list"

fun exec_call :: "call \<Rightarrow> pinocchio_dynamics_solver \<Rightarrow> pinocchio_dynamics_solver" where
  "exec_call (Call_f x u) s = snd (Pinocchio_f s x u)"
| "exec_call (Call_fx x u) s = snd (Pinocchio_fx s x u)"
| "exec_call (Call_fu x u) s = snd (Pinocchio_fu s x u)"

definition run_calls :: "call list \<Rightarrow> pinocchio_dynamics_solver \<Rightarrow> pinocchio_dynamics_solver" where
  "run_calls cs s = fold exec_call cs s"

text \<open>The control that a call of the history passes on to the engine.\<close>

fun call_control :: "call \<Rightarrow> real list" where
  "call_control (Call_f x u) = u"
| "call_control (Call_fx x u) = u"
| "call_control (Call_fu x u) = u"

text \<open>
  Modelled from the spec: the external engine on a Euclidean configuration space of \<open>n\<close>
  coordinates, whose code is not among the sources. There the manifold difference and
  integration are the plain vector ones (\<open>difference q0 q1 = q1 - q0\<close>,
  \<open>integrate q v = q + v\<close>), and the Jacobian of the difference is minus the identity in
  its first argument and the identity in its second. The dynamics are those of \<open>n\<close> unit
  masses driven by the control alone: the acceleration is the control.
\<close>

definition euclidean_model :: "nat \<Rightarrow> pinocchio_model" where
  "euclidean_model n =
     \<lparr>nq = n, nv = n,
      aba = (\<lambda>q v tau i. tau ! i),
      aba_partial_dq = (\<lambda>q v tau i j. 0),
      aba_partial_dv = (\<lambda>q v tau i j. 0),
      aba_partial_dtau = (\<lambda>q v tau i j. if i = j then 1 else 0),
      difference = (\<lambda>q0 q1 i. q1 ! i - q0 ! i),
      dDifference = (\<lambda>q0 q1 arg i j. if i = j then (if arg = ARG0 then - 1 else 1) else 0),
      integrate = (\<lambda>q v i. q ! i + v ! i)\<rparr>"

text \<open>
  A default-constructed solver: empty buffers and an engine model without coordinates.
  The sources do not give the dimension fields of an unbound solver; zero stands for
  them. No property below reads them: this solver only serves as the one that the
  concrete scene further down is bound to.
\<close>

definition PinocchioDynamicsSolver :: pinocchio_dynamics_solver where
  "PinocchioDynamicsSolver =
     \<lparr>num_positions = 0, num_velocities = 0, num_controls = 0,
      model = euclidean_model 0, xdot_analytic = [], fx_buf = [], fu_buf = []\<rparr>"

text \<open>
  A solver bound to the model \<open>m\<close>: the fields as \<open>AssignScene\<close> leaves them, up to the
  coefficients that \<open>f\<close>, \<open>fx\<close> and \<open>fu\<close> rewrite. The buffers keep their shapes, the top
  half of \<open>fx_\<close> holds zeros and the identity, and the top half of \<open>fu_\<close> holds zeros.
\<close>

definition bound_to :: "pinocchio_model \<Rightarrow> pinocchio_dynamics_solver \<Rightarrow> bool" where
  "bound_to m s \<longleftrightarrow>
     model s = m \<and> num_positions s = nq m \<and> num_velocities s = nv m \<and> num_controls s = nv m \<and>
     length (xdot_analytic s) = 2 * nv m \<and>
     length (fx_buf s) = 2 * nv m \<and> (\<forall>i < 2 * nv m. length (fx_buf s ! i) = 2 * nv m) \<and>
     (\<forall>i < nv m. \<forall>j < 2 * nv m. fx_buf s ! i ! j = (if j = nv m + i then 1 else 0)) \<and>
     length (fu_buf s) = 2 * nv m \<and> (\<forall>i < 2 * nv m. length (fu_buf s ! i) = nv m) \<and>
     (\<forall>i < nv m. \<forall>j < nv m. fu_buf s ! i ! j = 0)"

text \<open>
  A concrete scene: two sliding unit masses on a fixed base, and the solver bound to it.
\<close>

definition two_slider_scene :: scene where
  "two_slider_scene =
     \<lparr>GetNumControlledJoints = 2, GetControlledBaseType = FIXED,
      GetRobotModel = euclidean_model 2\<rparr>"

definition two_slider_solver :: pinocchio_dynamics_solver where
  "two_slider_solver = snd (Pinocchio_AssignScene two_slider_scene PinocchioDynamicsSolver)"

section \<open>Properties of the cart-pole solver\<close>

text \<open>
  C6. Upright equilibrium: with \<open>m_c = 1\<close>, \<open>m_p = 0.1\<close>, \<open>l = 0.5\<close>, \<open>g = 9.81\<close>, the
  state \<open>[0, \<pi>, 0, 0]\<close> and the control \<open>[0]\<close>, \<open>f\<close> returns the zero vector, exactly over
  the reals.
\<close>

theorem cartpole_f_upright_equilibrium:
  "Cartpole_f (CartpoleDynamicsSolver 1 (1 / 10) (1 / 2) (981 / 100)) [0, pi, 0, 0] [0] =
     Inr [0, 0, 0, 0]"
  by (simp add: Cartpole_f_def CartpoleDynamicsSolver_def)

text \<open>
  C7. \<open>AssignScene\<close> of the cart-pole solver fails with a configuration error exactly
  when the scene reports a number of controlled joints other than two; when it reports
  two, the call succeeds and the dimensions of the solver are \<open>num_positions = 2\<close>,
  \<open>num_velocities = 2\<close>, \<open>num_controls = 1\<close>.
\<close>

theorem cartpole_AssignScene_two_joints:
  "((\<exists>e. fst (Cartpole_AssignScene sc (CartpoleDynamicsSolver mc mp len grav)) = Inl e \<and>
          is_ConfigurationError e) \<longleftrightarrow> GetNumControlledJoints sc \<noteq> 2) \<and>
   (GetNumControlledJoints sc = 2 \<longrightarrow>
      fst (Cartpole_AssignScene sc (CartpoleDynamicsSolver mc mp len grav)) = Inr () \<and>
      num_positions (snd (Cartpole_AssignScene sc (CartpoleDynamicsSolver mc mp len grav))) = 2 \<and>
      num_velocities (snd (Cartpole_AssignScene sc (CartpoleDynamicsSolver mc mp len grav))) = 2 \<and>
      num_controls (snd (Cartpole_AssignScene sc (CartpoleDynamicsSolver mc mp len grav))) = 1)"
  by (auto simp: Cartpole_AssignScene_def CartpoleDynamicsSolver_def)

theorem cartpole_AssignScene_two_joints_witness:
  "fst (Cartpole_AssignScene
          \<lparr>GetNumControlledJoints = 2, GetControlledBaseType = FIXED,
           GetRobotModel = euclidean_model 2\<rparr>
          (CartpoleDynamicsSolver 1 (1 / 10) (1 / 2) (981 / 100))) = Inr () \<and>
   num_positions (snd (Cartpole_AssignScene
          \<lparr>GetNumControlledJoints = 2, GetControlledBaseType = FIXED,
           GetRobotModel = euclidean_model 2\<rparr>
          (CartpoleDynamicsSolver 1 (1 / 10) (1 / 2) (981 / 100)))) = 2 \<and>
   (\<exists>e. fst (Cartpole_AssignScene
          \<lparr>GetNumControlledJoints = 3, GetControlledBaseType = FIXED,
           GetRobotModel = euclidean_model 3\<rparr>
          (CartpoleDynamicsSolver 1 (1 / 10) (1 / 2) (981 / 100))) = Inl e \<and>
        is_ConfigurationError e)"
  using cartpole_AssignScene_two_joints
          [of "\<lparr>GetNumControlledJoints = 2, GetControlledBaseType = FIXED,
                GetRobotModel = euclidean_model 2\<rparr>" 1 "1 / 10" "1 / 2" "981 / 100"]
        cartpole_AssignScene_two_joints
          [of "\<lparr>GetNumControlledJoints = 3, GetControlledBaseType = FIXED,
                GetRobotModel = euclidean_model 3\<rparr>" 1 "1 / 10" "1 / 2" "981 / 100"]
  by simp

text \<open>
  C9. The cart-pole dynamics do not depend on the cart position: shifting \<open>x(0)\<close> by any
  \<open>d\<close> changes none of \<open>f\<close>, \<open>fx\<close>, \<open>fu\<close>, and the first column of \<open>fx\<close> is zero.
\<close>

theorem cartpole_translation_invariant:
  "Cartpole_f s (x[0 := x ! 0 + d]) u = Cartpole_f s x u \<and>
   Cartpole_fx s (x[0 := x ! 0 + d]) u = Cartpole_fx s x u \<and>
   Cartpole_fu s (x[0 := x ! 0 + d]) u = Cartpole_fu s x u \<and>
   (\<forall>A. Cartpole_fx s x u = Inr A \<longrightarrow> length A = 4 \<and> (\<forall>i<4. A ! i ! 0 = 0))"
proof -
  have lt4: "i = 0 \<or> i = 1 \<or> i = 2 \<or> i = 3" if "i < 4" for i :: nat
    using that by arith
  have "\<forall>i<4. A ! i ! 0 = 0" if "Cartpole_fx s x u = Inr A" for A
  proof (intro allI impI)
    fix i :: nat assume "i < 4"
    from lt4 [OF this] that show "A ! i ! 0 = 0"
      by (auto simp: Cartpole_fx_def Let_def split: if_splits)
  qed
  moreover have "length A = 4" if "Cartpole_fx s x u = Inr A" for A
    using that by (auto simp: Cartpole_fx_def Let_def split: if_splits)
  ultimately show ?thesis
    by (simp add: Cartpole_f_def Cartpole_fx_def Cartpole_fu_def Let_def)
qed

theorem cartpole_translation_invariant_witness:
  "Cartpole_f (CartpoleDynamicsSolver 1 (1 / 10) (1 / 2) (981 / 100)) [7, 0, 3, 0] [0] =
     Cartpole_f (CartpoleDynamicsSolver 1 (1 / 10) (1 / 2) (981 / 100)) [5, 0, 3, 0] [0] \<and>
   Cartpole_fx (CartpoleDynamicsSolver 1 (1 / 10) (1 / 2) (981 / 100)) [5, 0, 3, 0] [0] =
     Inr [[0, 0, 1, 0], [0, 0, 0, 1], [0, 981 / 1000, 0, 0], [0, - (10791 / 500), 0, 0]]"
  using cartpole_translation_invariant
          [of "CartpoleDynamicsSolver 1 (1 / 10) (1 / 2) (981 / 100)" "[5, 0, 3, 0]" 2 "[0]"]
  by (simp add: Cartpole_fx_def CartpoleDynamicsSolver_def)

subsection \<open>The Jacobians of the cart-pole solver\<close>

text \<open>
  The two accelerations are quotients; the source writes the derivative of a quotient
  \<open>N / D\<close> as \<open>- D' * N / D\<^sup>2 + N' / D\<close>.
\<close>

lemma DERIV_quotient_form:
  fixes N D :: "real \<Rightarrow> real"
  assumes "(N has_real_derivative N') (at t)" and "(D has_real_derivative D') (at t)"
    and "D t \<noteq> 0"
  shows "((\<lambda>x. N x / D x) has_real_derivative (- D' * N t / (D t) ^ 2 + N' / D t)) (at t)"
proof -
  have "((\<lambda>x. N x / D x) has_real_derivative (N' * D t - N t * D') / (D t * D t)) (at t)"
    using assms by (rule DERIV_divide)
  moreover have "(N' * D t - N t * D') / (D t * D t) = - D' * N t / (D t) ^ 2 + N' / D t"
    using assms(3) by (simp add: field_simps power2_eq_square)
  ultimately show ?thesis by simp
qed

lemma cart_acceleration_DERIV_angle:
  assumes "mc + mp * sin th * sin th \<noteq> 0"
  shows "((\<lambda>t. (u0 + mp * sin t * (len * (w * w) + gr * cos t)) / (mc + mp * sin t * sin t))
     has_real_derivative
      (- 2 * mp * (mp * (gr * cos th + len * w * w) * sin th + u0) *
                sin th * cos th / (mc + mp * sin th * sin th) ^ 2 +
              (- gr * mp * sin th * sin th +
                 mp * (gr * cos th + len * w * w) * cos th) /
                (mc + mp * sin th * sin th))) (at th)"
proof -
  have N: "((\<lambda>t. u0 + mp * sin t * (len * (w * w) + gr * cos t)) has_real_derivative
       (- gr * mp * sin th * sin th + mp * (gr * cos th + len * w * w) * cos th)) (at th)"
    by (auto intro!: derivative_eq_intros simp: algebra_simps)
  have D: "((\<lambda>t. mc + mp * sin t * sin t) has_real_derivative (2 * mp * sin th * cos th)) (at th)"
    by (auto intro!: derivative_eq_intros simp: algebra_simps)
  have "((\<lambda>t. (u0 + mp * sin t * (len * (w * w) + gr * cos t)) / (mc + mp * sin t * sin t))
     has_real_derivative
      (- (2 * mp * sin th * cos th) * (u0 + mp * sin th * (len * (w * w) + gr * cos th)) /
           (mc + mp * sin th * sin th) ^ 2 +
         (- gr * mp * sin th * sin th + mp * (gr * cos th + len * w * w) * cos th) /
           (mc + mp * sin th * sin th))) (at th)"
    by (rule DERIV_quotient_form [OF N D assms])
  moreover have eq: "- (2 * mp * sin th * cos th) * (u0 + mp * sin th * (len * (w * w) + gr * cos th)) =
     - 2 * mp * (mp * (gr * cos th + len * w * w) * sin th + u0) * sin th * cos th"
    by (simp add: algebra_simps)
  ultimately show ?thesis by (simp only: eq)
qed

lemma pole_acceleration_DERIV_angle:
  assumes "len * mc + len * mp * sin th * sin th \<noteq> 0"
  shows "((\<lambda>t. - (len * mp * cos t * sin t * (w * w) + u0 * cos t + (mc + mp) * gr * sin t) /
               (len * mc + len * mp * sin t * sin t))
     has_real_derivative
      (- 2 * len * mp *
                (- gr * (mc + mp) * sin th - len * mp * w * w * sin th * cos th -
                   u0 * cos th) *
                sin th * cos th / (len * mc + len * mp * sin th * sin th) ^ 2 +
              (- gr * (mc + mp) * cos th + len * mp * w * w * sin th * sin th -
                 len * mp * w * w * cos th * cos th + u0 * sin th) /
                (len * mc + len * mp * sin th * sin th))) (at th)"
proof -
  have N: "((\<lambda>t. - (len * mp * cos t * sin t * (w * w) + u0 * cos t + (mc + mp) * gr * sin t)) has_real_derivative
       (- gr * (mc + mp) * cos th + len * mp * w * w * sin th * sin th -
                 len * mp * w * w * cos th * cos th + u0 * sin th)) (at th)"
    by (auto intro!: derivative_eq_intros simp: algebra_simps)
  have D: "((\<lambda>t. len * mc + len * mp * sin t * sin t) has_real_derivative (2 * len * mp * sin th * cos th)) (at th)"
    by (auto intro!: derivative_eq_intros simp: algebra_simps)
  have "((\<lambda>t. - (len * mp * cos t * sin t * (w * w) + u0 * cos t + (mc + mp) * gr * sin t) /
               (len * mc + len * mp * sin t * sin t))
     has_real_derivative
      (- (2 * len * mp * sin th * cos th) * (- (len * mp * cos th * sin th * (w * w) + u0 * cos th + (mc + mp) * gr * sin th)) /
           (len * mc + len * mp * sin th * sin th) ^ 2 +
         (- gr * (mc + mp) * cos th + len * mp * w * w * sin th * sin th -
                 len * mp * w * w * cos th * cos th + u0 * sin th) /
           (len * mc + len * mp * sin th * sin th))) (at th)"
    by (rule DERIV_quotient_form [OF N D assms])
  moreover have eq: "- (2 * len * mp * sin th * cos th) * (- (len * mp * cos th * sin th * (w * w) + u0 * cos th + (mc + mp) * gr * sin th)) =
     - 2 * len * mp *
                (- gr * (mc + mp) * sin th - len * mp * w * w * sin th * cos th -
                   u0 * cos th) *
                sin th * cos th"
    by (simp add: algebra_simps)
  ultimately show ?thesis by (simp only: eq)
qed


lemma cart_acceleration_DERIV_angular_velocity:
  shows "((\<lambda>w. (u0 + mp * sin th * (len * (w * w) + gr * cos th)) / (mc + mp * sin th * sin th))
     has_real_derivative
      (2 * len * mp * w * sin th / (mc + mp * sin th * sin th))) (at w)"
proof -
  have "((\<lambda>w. u0 + mp * sin th * (len * (w * w) + gr * cos th)) has_real_derivative
      2 * len * mp * w * sin th) (at w)"
    by (auto intro!: derivative_eq_intros simp: algebra_simps)
  then show ?thesis by (rule DERIV_cdivide)
qed

lemma pole_acceleration_DERIV_angular_velocity:
  shows "((\<lambda>w. - (len * mp * cos th * sin th * (w * w) + u0 * cos th + (mc + mp) * gr * sin th) /
               (len * mc + len * mp * sin th * sin th))
     has_real_derivative
      (- 2 * len * mp * w * sin th * cos th / (len * mc + len * mp * sin th * sin th))) (at w)"
proof -
  have "((\<lambda>w. - (len * mp * cos th * sin th * (w * w) + u0 * cos th + (mc + mp) * gr * sin th))
      has_real_derivative - 2 * len * mp * w * sin th * cos th) (at w)"
    by (auto intro!: derivative_eq_intros simp: algebra_simps)
  then show ?thesis by (rule DERIV_cdivide)
qed

lemma cart_acceleration_DERIV_control:
  shows "((\<lambda>u0. (u0 + mp * sin th * (len * (w * w) + gr * cos th)) / (mc + mp * sin th * sin th))
     has_real_derivative
      (1 / (mc + mp * sin th * sin th))) (at u0)"
proof -
  have "((\<lambda>u0. u0 + mp * sin th * (len * (w * w) + gr * cos th)) has_real_derivative 1) (at u0)"
    by (auto intro!: derivative_eq_intros)
  then show ?thesis by (rule DERIV_cdivide)
qed

lemma pole_acceleration_DERIV_control:
  shows "((\<lambda>u0. - (len * mp * cos th * sin th * (w * w) + u0 * cos th + (mc + mp) * gr * sin th) /
               (len * mc + len * mp * sin th * sin th))
     has_real_derivative
      (- cos th / (len * mc + len * mp * sin th * sin th))) (at u0)"
proof -
  have "((\<lambda>u0. - (len * mp * cos th * sin th * (w * w) + u0 * cos th + (mc + mp) * gr * sin th))
      has_real_derivative - cos th) (at u0)"
    by (auto intro!: derivative_eq_intros)
  then show ?thesis by (rule DERIV_cdivide)
qed


lemma lt4_cases: "i < 4 \<Longrightarrow> i = 0 \<or> i = 1 \<or> i = 2 \<or> i = (3::nat)"
  by arith

lemma length4_list: "length x = 4 \<Longrightarrow> \<exists>a b c d. x = [a, b, c, d]"
  by (auto simp: numeral_eq_Suc length_Suc_conv)

lemma length1_list: "length u = 1 \<Longrightarrow> \<exists>a. u = [a]"
  by (auto simp: length_Suc_conv)

lemma cartpole_column_position:
  "\<forall>i<4. ((\<lambda>t. projr (Cartpole_f s [t, th, xd, td] [u0]) ! i) has_real_derivative
      projr (Cartpole_fx s [x0, th, xd, td] [u0]) ! i ! 0) (at x0)"
proof (intro allI impI)
  fix i :: nat assume "i < 4"
  from lt4_cases [OF this] show "((\<lambda>t. projr (Cartpole_f s [t, th, xd, td] [u0]) ! i) has_real_derivative
      projr (Cartpole_fx s [x0, th, xd, td] [u0]) ! i ! 0) (at x0)"
    by (elim disjE) (simp_all add: Cartpole_f_def Cartpole_fx_def Let_def)
qed

lemma cartpole_column_velocity:
  "\<forall>i<4. ((\<lambda>t. projr (Cartpole_f s [x0, th, t, td] [u0]) ! i) has_real_derivative
      projr (Cartpole_fx s [x0, th, xd, td] [u0]) ! i ! 2) (at xd)"
proof (intro allI impI)
  fix i :: nat assume "i < 4"
  from lt4_cases [OF this] show "((\<lambda>t. projr (Cartpole_f s [x0, th, t, td] [u0]) ! i) has_real_derivative
      projr (Cartpole_fx s [x0, th, xd, td] [u0]) ! i ! 2) (at xd)"
    by (elim disjE) (simp_all add: Cartpole_f_def Cartpole_fx_def Let_def)
qed

lemma cartpole_column_angle:
  assumes "m_c s + m_p s * sin th * sin th \<noteq> 0" and "l s \<noteq> 0"
  shows "\<forall>i<4. ((\<lambda>t. projr (Cartpole_f s [x0, t, xd, td] [u0]) ! i) has_real_derivative
      projr (Cartpole_fx s [x0, th, xd, td] [u0]) ! i ! 1) (at th)"
proof (intro allI impI)
  fix i :: nat assume "i < 4"
  have D4: "l s * m_c s + l s * m_p s * sin th * sin th \<noteq> 0"
  proof -
    have "l s * m_c s + l s * m_p s * sin th * sin th = l s * (m_c s + m_p s * sin th * sin th)"
      by (simp add: algebra_simps)
    with assms show ?thesis by simp
  qed
  have f2: "(\<lambda>t. projr (Cartpole_f s [x0, t, xd, td] [u0]) ! 2) =
      (\<lambda>t. (u0 + m_p s * sin t * (l s * (td * td) + g s * cos t)) / (m_c s + m_p s * sin t * sin t))"
    by (simp add: Cartpole_f_def Let_def)
  have a2: "projr (Cartpole_fx s [x0, th, xd, td] [u0]) ! 2 ! 1 =
      - 2 * m_p s * (m_p s * (g s * cos th + l s * td * td) * sin th + u0) *
                sin th * cos th / (m_c s + m_p s * sin th * sin th) ^ 2 +
              (- g s * m_p s * sin th * sin th +
                 m_p s * (g s * cos th + l s * td * td) * cos th) /
                (m_c s + m_p s * sin th * sin th)"
    by (simp add: Cartpole_fx_def Let_def)
  have f3: "(\<lambda>t. projr (Cartpole_f s [x0, t, xd, td] [u0]) ! 3) =
      (\<lambda>t. - (l s * m_p s * cos t * sin t * (td * td) + u0 * cos t + (m_c s + m_p s) * g s * sin t) /
               (l s * m_c s + l s * m_p s * sin t * sin t))"
    by (simp add: Cartpole_f_def Let_def)
  have a3: "projr (Cartpole_fx s [x0, th, xd, td] [u0]) ! 3 ! 1 =
      - 2 * l s * m_p s *
                (- g s * (m_c s + m_p s) * sin th - l s * m_p s * td * td * sin th * cos th -
                   u0 * cos th) *
                sin th * cos th / (l s * m_c s + l s * m_p s * sin th * sin th) ^ 2 +
              (- g s * (m_c s + m_p s) * cos th + l s * m_p s * td * td * sin th * sin th -
                 l s * m_p s * td * td * cos th * cos th + u0 * sin th) /
                (l s * m_c s + l s * m_p s * sin th * sin th)"
    by (simp add: Cartpole_fx_def Let_def)
  have e2: "((\<lambda>t. projr (Cartpole_f s [x0, t, xd, td] [u0]) ! 2) has_real_derivative
      projr (Cartpole_fx s [x0, th, xd, td] [u0]) ! 2 ! 1) (at th)"
    unfolding f2 a2 by (rule cart_acceleration_DERIV_angle [OF assms(1)])
  have e3: "((\<lambda>t. projr (Cartpole_f s [x0, t, xd, td] [u0]) ! 3) has_real_derivative
      projr (Cartpole_fx s [x0, th, xd, td] [u0]) ! 3 ! 1) (at th)"
    unfolding f3 a3 by (rule pole_acceleration_DERIV_angle [OF D4])
  from lt4_cases [OF \<open>i < 4\<close>] show "((\<lambda>t. projr (Cartpole_f s [x0, t, xd, td] [u0]) ! i) has_real_derivative
      projr (Cartpole_fx s [x0, th, xd, td] [u0]) ! i ! 1) (at th)"
  proof (elim disjE)
    assume "i = 0" then show ?thesis by (simp add: Cartpole_f_def Cartpole_fx_def Let_def)
  next
    assume "i = 1" then show ?thesis by (simp add: Cartpole_f_def Cartpole_fx_def Let_def)
  next
    assume "i = 2" with e2 show ?thesis by simp
  next
    assume "i = 3" with e3 show ?thesis by simp
  qed
qed


lemma cartpole_column_angular_velocity:
  "\<forall>i<4. ((\<lambda>t. projr (Cartpole_f s [x0, th, xd, t] [u0]) ! i) has_real_derivative
      projr (Cartpole_fx s [x0, th, xd, td] [u0]) ! i ! 3) (at td)"
proof (intro allI impI)
  fix i :: nat assume "i < 4"
  have f2: "(\<lambda>t. projr (Cartpole_f s [x0, th, xd, t] [u0]) ! 2) =
      (\<lambda>t. (u0 + m_p s * sin th * (l s * (t * t) + g s * cos th)) / (m_c s + m_p s * sin th * sin th))"
    by (simp add: Cartpole_f_def Let_def)
  have a2: "projr (Cartpole_fx s [x0, th, xd, td] [u0]) ! 2 ! 3 =
      2 * l s * m_p s * td * sin th / (m_c s + m_p s * sin th * sin th)"
    by (simp add: Cartpole_fx_def Let_def)
  have f3: "(\<lambda>t. projr (Cartpole_f s [x0, th, xd, t] [u0]) ! 3) =
      (\<lambda>t. - (l s * m_p s * cos th * sin th * (t * t) + u0 * cos th + (m_c s + m_p s) * g s * sin th) /
               (l s * m_c s + l s * m_p s * sin th * sin th))"
    by (simp add: Cartpole_f_def Let_def)
  have a3: "projr (Cartpole_fx s [x0, th, xd, td] [u0]) ! 3 ! 3 =
      - 2 * l s * m_p s * td * sin th * cos th / (l s * m_c s + l s * m_p s * sin th * sin th)"
    by (simp add: Cartpole_fx_def Let_def)
  have e2: "((\<lambda>t. projr (Cartpole_f s [x0, th, xd, t] [u0]) ! 2) has_real_derivative
      projr (Cartpole_fx s [x0, th, xd, td] [u0]) ! 2 ! 3) (at td)"
    unfolding f2 a2 by (rule cart_acceleration_DERIV_angular_velocity)
  have e3: "((\<lambda>t. projr (Cartpole_f s [x0, th, xd, t] [u0]) ! 3) has_real_derivative
      projr (Cartpole_fx s [x0, th, xd, td] [u0]) ! 3 ! 3) (at td)"
    unfolding f3 a3 by (rule pole_acceleration_DERIV_angular_velocity)
  from lt4_cases [OF \<open>i < 4\<close>] show "((\<lambda>t. projr (Cartpole_f s [x0, th, xd, t] [u0]) ! i) has_real_derivative
      projr (Cartpole_fx s [x0, th, xd, td] [u0]) ! i ! 3) (at td)"
  proof (elim disjE)
    assume "i = 0" then show ?thesis by (simp add: Cartpole_f_def Cartpole_fx_def Let_def)
  next
    assume "i = 1" then show ?thesis by (simp add: Cartpole_f_def Cartpole_fx_def Let_def)
  next
    assume "i = 2" with e2 show ?thesis by simp
  next
    assume "i = 3" with e3 show ?thesis by simp
  qed
qed

lemma cartpole_column_control:
  "\<forall>i<4. ((\<lambda>t. projr (Cartpole_f s [x0, th, xd, td] [t]) ! i) has_real_derivative
      projr (Cartpole_fu s [x0, th, xd, td] [u0]) ! i ! 0) (at u0)"
proof (intro allI impI)
  fix i :: nat assume "i < 4"
  have f2: "(\<lambda>t. projr (Cartpole_f s [x0, th, xd, td] [t]) ! 2) =
      (\<lambda>t. (t + m_p s * sin th * (l s * (td * td) + g s * cos th)) / (m_c s + m_p s * sin th * sin th))"
    by (simp add: Cartpole_f_def Let_def)
  have a2: "projr (Cartpole_fu s [x0, th, xd, td] [u0]) ! 2 ! 0 =
      1 / (m_c s + m_p s * sin th * sin th)"
    by (simp add: Cartpole_fu_def Let_def)
  have f3: "(\<lambda>t. projr (Cartpole_f s [x0, th, xd, td] [t]) ! 3) =
      (\<lambda>t. - (l s * m_p s * cos th * sin th * (td * td) + t * cos th + (m_c s + m_p s) * g s * sin th) /
               (l s * m_c s + l s * m_p s * sin th * sin th))"
    by (simp add: Cartpole_f_def Let_def)
  have a3: "projr (Cartpole_fu s [x0, th, xd, td] [u0]) ! 3 ! 0 =
      - cos th / (l s * m_c s + l s * m_p s * sin th * sin th)"
    by (simp add: Cartpole_fu_def Let_def)
  have e2: "((\<lambda>t. projr (Cartpole_f s [x0, th, xd, td] [t]) ! 2) has_real_derivative
      projr (Cartpole_fu s [x0, th, xd, td] [u0]) ! 2 ! 0) (at u0)"
    unfolding f2 a2 by (rule cart_acceleration_DERIV_control)
  have e3: "((\<lambda>t. projr (Cartpole_f s [x0, th, xd, td] [t]) ! 3) has_real_derivative
      projr (Cartpole_fu s [x0, th, xd, td] [u0]) ! 3 ! 0) (at u0)"
    unfolding f3 a3 by (rule pole_acceleration_DERIV_control)
  from lt4_cases [OF \<open>i < 4\<close>] show "((\<lambda>t. projr (Cartpole_f s [x0, th, xd, td] [t]) ! i) has_real_derivative
      projr (Cartpole_fu s [x0, th, xd, td] [u0]) ! i ! 0) (at u0)"
  proof (elim disjE)
    assume "i = 0" then show ?thesis by (simp add: Cartpole_f_def Cartpole_fu_def Let_def)
  next
    assume "i = 1" then show ?thesis by (simp add: Cartpole_f_def Cartpole_fu_def Let_def)
  next
    assume "i = 2" with e2 show ?thesis by simp
  next
    assume "i = 3" with e3 show ?thesis by simp
  qed
qed

text \<open>
  C3. For the cart-pole model \<open>fx\<close> and \<open>fu\<close> are the exact partial derivatives of \<open>f\<close>:
  entry \<open>(i, j)\<close> of the \<open>4 \<times> 4\<close> matrix \<open>fx(x, u)\<close> is the derivative of component \<open>i\<close> of
  \<open>f\<close> in the coordinate \<open>x(j)\<close>, and entry \<open>i\<close> of the \<open>4 \<times> 1\<close> matrix \<open>fu(x, u)\<close> is the
  derivative of component \<open>i\<close> of \<open>f\<close> in \<open>u(0)\<close>, at every state and control where the
  closed forms are defined, that is where the shared denominators
  \<open>m_c + m_p * sin\<^sup>2 \<theta>\<close> and \<open>l * (m_c + m_p * sin\<^sup>2 \<theta>)\<close> are not zero. For a
  positive cart mass, a pole mass that is not negative and a pole length other than zero
  that is every state and control.
\<close>

theorem cartpole_jacobians_exact:
  assumes "length x = 4" and "length u = 1"
    and "m_c s + m_p s * sin (x ! 1) * sin (x ! 1) \<noteq> 0" and "l s \<noteq> 0"
  shows "\<exists>A B. Cartpole_fx s x u = Inr A \<and> Cartpole_fu s x u = Inr B \<and>
     (\<forall>i<4. \<forall>j<4. ((\<lambda>t. projr (Cartpole_f s (x[j := t]) u) ! i) has_real_derivative A ! i ! j)
        (at (x ! j))) \<and>
     (\<forall>i<4. ((\<lambda>t. projr (Cartpole_f s x (u[0 := t])) ! i) has_real_derivative B ! i ! 0)
        (at (u ! 0)))"
proof -
  from assms(1) obtain x0 th xd td where x: "x = [x0, th, xd, td]"
    using length4_list by blast
  from assms(2) obtain u0 where u: "u = [u0]"
    using length1_list by blast
  have D: "m_c s + m_p s * sin th * sin th \<noteq> 0"
    using assms(3) by (simp add: x)
  have upd: "x[0 := t] = [t, th, xd, td]" "x[1 := t] = [x0, t, xd, td]"
    "x[2 := t] = [x0, th, t, td]" "x[3 := t] = [x0, th, xd, t]" "u[0 := t] = [t]" for t
    by (simp_all add: x u numeral_2_eq_2 numeral_3_eq_3)
  have at: "x ! 0 = x0" "x ! 1 = th" "x ! 2 = xd" "x ! 3 = td" "u ! 0 = u0"
    by (simp_all add: x u)
  have A: "Cartpole_fx s x u = Inr (projr (Cartpole_fx s x u))"
    by (simp add: Cartpole_fx_def x u Let_def)
  have B: "Cartpole_fu s x u = Inr (projr (Cartpole_fu s x u))"
    by (simp add: Cartpole_fu_def x u Let_def)
  have J: "((\<lambda>t. projr (Cartpole_f s (x[j := t]) u) ! i) has_real_derivative
      projr (Cartpole_fx s x u) ! i ! j) (at (x ! j))" if "i < 4" and "j < 4" for i j
  proof -
    from lt4_cases [OF \<open>j < 4\<close>] show ?thesis
    proof (elim disjE)
      assume "j = 0"
      with cartpole_column_position [of s th xd td u0 x0] \<open>i < 4\<close> show ?thesis
        by (simp only: upd at) (simp add: x u)
    next
      assume "j = 1"
      with cartpole_column_angle [OF D assms(4), of x0 xd td u0] \<open>i < 4\<close> show ?thesis
        by (simp only: upd at) (simp add: x u)
    next
      assume "j = 2"
      with cartpole_column_velocity [of s x0 th td u0 xd] \<open>i < 4\<close> show ?thesis
        by (simp only: upd at) (simp add: x u)
    next
      assume "j = 3"
      with cartpole_column_angular_velocity [of s x0 th xd u0 td] \<open>i < 4\<close> show ?thesis
        by (simp only: upd at) (simp add: x u)
    qed
  qed
  have U: "((\<lambda>t. projr (Cartpole_f s x (u[0 := t])) ! i) has_real_derivative
      projr (Cartpole_fu s x u) ! i ! 0) (at (u ! 0))" if "i < 4" for i
    using cartpole_column_control [of s x0 th xd td u0] that
    by (simp only: upd at) (simp add: x u)
  from A B J U show ?thesis by blast
qed

theorem cartpole_jacobians_exact_witness:
  "Cartpole_fx (CartpoleDynamicsSolver 1 (1 / 10) (1 / 2) (981 / 100)) [0, 0, 0, 0] [0] =
     Inr [[0, 0, 1, 0], [0, 0, 0, 1], [0, 981 / 1000, 0, 0], [0, - (10791 / 500), 0, 0]] \<and>
   ((\<lambda>t. projr (Cartpole_f (CartpoleDynamicsSolver 1 (1 / 10) (1 / 2) (981 / 100))
                  ([0, 0, 0, 0][1 := t]) [0]) ! 2)
      has_real_derivative 981 / 1000) (at 0)"
proof -
  let ?S = "CartpoleDynamicsSolver 1 (1 / 10) (1 / 2) (981 / 100)"
  have "\<exists>A B. Cartpole_fx ?S [0, 0, 0, 0] [0] = Inr A \<and> Cartpole_fu ?S [0, 0, 0, 0] [0] = Inr B \<and>
     (\<forall>i<4. \<forall>j<4. ((\<lambda>t. projr (Cartpole_f ?S ([0, 0, 0, 0][j := t]) [0]) ! i)
        has_real_derivative A ! i ! j) (at ([0, 0, 0, 0] ! j))) \<and>
     (\<forall>i<4. ((\<lambda>t. projr (Cartpole_f ?S [0, 0, 0, 0] ([0][0 := t])) ! i)
        has_real_derivative B ! i ! 0) (at ([0] ! 0)))"
    by (rule cartpole_jacobians_exact) (simp_all add: CartpoleDynamicsSolver_def)
  then obtain A where A: "Cartpole_fx ?S [0, 0, 0, 0] [0] = Inr A"
    and J: "\<forall>i<4. \<forall>j<4. ((\<lambda>t. projr (Cartpole_f ?S ([0, 0, 0, 0][j := t]) [0]) ! i)
        has_real_derivative A ! i ! j) (at ([0, 0, 0, 0] ! j))"
    by blast
  have fx: "Cartpole_fx ?S [0, 0, 0, 0] [0] =
     Inr [[0, 0, 1, 0], [0, 0, 0, 1], [0, 981 / 1000, 0, 0], [0, - (10791 / 500), 0, 0]]"
    by (simp add: Cartpole_fx_def CartpoleDynamicsSolver_def)
  with A have "A = [[0, 0, 1, 0], [0, 0, 0, 1], [0, 981 / 1000, 0, 0], [0, - (10791 / 500), 0, 0]]"
    by simp
  with J [rule_format, of 2 1] fx show ?thesis
    by simp
qed

section \<open>Properties of the generic articulated-body solver\<close>

subsection \<open>Blocks and the bound solver\<close>

lemma length_update_block [simp]: "length (update_block r c h w upd M) = length M"
  by (simp add: update_block_def)

lemma length_row_update_block [simp]:
  "i < length M \<Longrightarrow> length (update_block r c h w upd M ! i) = length (M ! i)"
  by (simp add: update_block_def)

lemma nth_update_block:
  "i < length M \<Longrightarrow> j < length (M ! i) \<Longrightarrow>
   update_block r c h w upd M ! i ! j =
     (if r \<le> i \<and> i < r + h \<and> c \<le> j \<and> j < c + w then upd (i - r) (j - c) (M ! i ! j)
      else M ! i ! j)"
  by (simp add: update_block_def)

lemma matrix_eqI:
  assumes "length A = length B"
    and "\<And>i. i < length A \<Longrightarrow> length (A ! i) = length (B ! i)"
    and "\<And>i j. i < length A \<Longrightarrow> j < length (A ! i) \<Longrightarrow> A ! i ! j = B ! i ! j"
  shows "A = (B :: real list list)"
  using assms by (auto simp: list_eq_iff_nth_eq)

lemma length_setZero [simp]: "length (setZero r c) = r"
  by (simp add: setZero_def)

lemma nth_setZero [simp]: "i < r \<Longrightarrow> setZero r c ! i = replicate c 0"
  by (simp add: setZero_def)

lemma cols_setZero: "cols (setZero r c) = (if r = 0 then 0 else c)"
  by (cases r) (simp_all add: cols_def setZero_def)

lemma cols_nth: "M \<noteq> [] \<Longrightarrow> cols M = length (M ! 0)"
  by (cases M) (simp_all add: cols_def)

lemma length_Identity [simp]: "length (Identity r c) = r"
  by (simp add: Identity_def)

lemma length_row_Identity [simp]: "i < r \<Longrightarrow> length (Identity r c ! i) = c"
  by (simp add: Identity_def)

lemma nth_Identity: "i < r \<Longrightarrow> j < c \<Longrightarrow> Identity r c ! i ! j = (if i = j then 1 else 0)"
  by (simp add: Identity_def)

lemma AssignScene_fields:
  assumes "Pinocchio_AssignScene sc s0 = (Inr (), s)"
  shows "GetControlledBaseType sc = FIXED" and "model s = GetRobotModel sc"
    and "num_positions s = nq (model s)" and "num_velocities s = nv (model s)"
    and "num_controls s = nv (model s)"
    and "xdot_analytic s = replicate (2 * nv (model s)) 0"
    and "fx_buf s = update_block 0 (nv (model s)) (nv (model s)) (nv (model s))
           (\<lambda>i j old. if i = j then 1 else 0) (setZero (2 * nv (model s)) (2 * nv (model s)))"
    and "fu_buf s = setZero (2 * nv (model s)) (nv (model s))"
  using assms
  by (auto simp: Pinocchio_AssignScene_def Let_def get_num_state_derivative_def cols_setZero
      split: if_splits)

lemma AssignScene_bound:
  assumes "Pinocchio_AssignScene sc s0 = (Inr (), s)"
  shows "bound_to (model s) s"
  unfolding bound_to_def
  by (simp add: AssignScene_fields [OF assms] nth_update_block)

lemma bound_to_block_fits:
  assumes "bound_to m s"
  shows "block_fits (nv m) 0 (nv m) (nv m) (fx_buf s)"
    and "block_fits (nv m) (nv m) (nv m) (nv m) (fx_buf s)"
    and "block_fits (rows (fu_buf s) - nv m) (cols (fu_buf s) - nv m) (nv m) (nv m) (fu_buf s)"
    and "rows (fu_buf s) - nv m = nv m" and "cols (fu_buf s) - nv m = 0"
    and "block_fits (nv m) 0 (nv m) (nv m) (fu_buf s)"
proof -
  show "block_fits (nv m) 0 (nv m) (nv m) (fx_buf s)"
    and "block_fits (nv m) (nv m) (nv m) (nv m) (fx_buf s)"
    using assms by (simp_all add: bound_to_def block_fits_def list_all_length)
  show r: "rows (fu_buf s) - nv m = nv m"
    using assms by (simp add: bound_to_def rows_def)
  show c: "cols (fu_buf s) - nv m = 0"
  proof (cases "fu_buf s = []")
    case True
    then show ?thesis by (simp add: cols_def)
  next
    case False
    then have "0 < length (fu_buf s)" by simp
    with assms have "length (fu_buf s ! 0) = nv m" by (simp add: bound_to_def)
    with False show ?thesis by (simp add: cols_nth)
  qed
  show b: "block_fits (nv m) 0 (nv m) (nv m) (fu_buf s)"
    using assms by (simp add: bound_to_def block_fits_def list_all_length)
  show "block_fits (rows (fu_buf s) - nv m) (cols (fu_buf s) - nv m) (nv m) (nv m) (fu_buf s)"
    unfolding r c by (rule b)
qed

lemma ComputeDerivatives_bound:
  assumes "bound_to m s"
  shows "Pinocchio_ComputeDerivatives s x u =
     (if length x < nq m \<or> length x < nv m then (Inl EigenAssertion, s)
      else (Inr (),
        s\<lparr>fx_buf :=
             update_block (nv m) (nv m) (nv m) (nv m)
               (\<lambda>i j old. aba_partial_dv m (head (nq m) x) (tail (nv m) x) u i j)
               (update_block (nv m) 0 (nv m) (nv m)
                 (\<lambda>i j old. aba_partial_dq m (head (nq m) x) (tail (nv m) x) u i j) (fx_buf s)),
           fu_buf :=
             update_block (nv m) 0 (nv m) (nv m)
               (\<lambda>i j old. aba_partial_dtau m (head (nq m) x) (tail (nv m) x) u i j) (fu_buf s)\<rparr>))"
proof -
  from assms have f: "model s = m" "num_positions s = nq m" "num_velocities s = nv m"
    by (simp_all add: bound_to_def)
  show ?thesis
    by (simp add: Pinocchio_ComputeDerivatives_def Let_def f bound_to_block_fits [OF assms])
qed

lemma ComputeDerivatives_preserves:
  assumes "bound_to m s"
  shows "bound_to m (snd (Pinocchio_ComputeDerivatives s x u))"
  using assms
  by (simp add: ComputeDerivatives_bound [OF assms]) (simp add: bound_to_def nth_update_block)

lemma f_bound:
  assumes "bound_to m s"
  shows "Pinocchio_f s x u =
     (if length x < nq m \<or> length x < nv m then (Inl EigenAssertion, s)
      else (Inr (tail (nv m) x @ map (aba m (head (nq m) x) (tail (nv m) x) u) [0..<nv m]),
            s\<lparr>xdot_analytic :=
                 tail (nv m) x @ map (aba m (head (nq m) x) (tail (nv m) x) u) [0..<nv m]\<rparr>))"
proof -
  from assms have f: "model s = m" "num_positions s = nq m" "num_velocities s = nv m"
    "length (xdot_analytic s) = 2 * nv m"
    by (simp_all add: bound_to_def)
  show ?thesis
    by (auto simp: Pinocchio_f_def Let_def f set_head_def set_tail_def tail_def)
qed

lemma f_preserves:
  assumes "bound_to m s"
  shows "bound_to m (snd (Pinocchio_f s x u))"
  using assms
  by (simp add: f_bound [OF assms]) (simp add: bound_to_def tail_def)

lemma exec_call_preserves:
  assumes "bound_to m s"
  shows "bound_to m (exec_call c s)"
proof (cases c)
  case (Call_f x u)
  then show ?thesis using f_preserves [OF assms] by simp
next
  case (Call_fx x u)
  with ComputeDerivatives_preserves [OF assms, of x u] show ?thesis
    by (auto simp: Pinocchio_fx_def split: prod.splits sum.splits)
next
  case (Call_fu x u)
  with ComputeDerivatives_preserves [OF assms, of x u] show ?thesis
    by (auto simp: Pinocchio_fu_def split: prod.splits sum.splits)
qed

lemma run_calls_preserves:
  "bound_to m s \<Longrightarrow> bound_to m (run_calls cs s)"
  unfolding run_calls_def
  by (induction cs arbitrary: s) (simp_all add: exec_call_preserves)

lemma two_slider_bound:
  "Pinocchio_AssignScene two_slider_scene PinocchioDynamicsSolver = (Inr (), two_slider_solver)"
  by (simp add: two_slider_solver_def two_slider_scene_def Pinocchio_AssignScene_def Let_def)

lemma two_slider_solver_eq:
  "two_slider_solver =
     \<lparr>num_positions = 2, num_velocities = 2, num_controls = 2,
      model = euclidean_model 2, xdot_analytic = [0, 0, 0, 0],
      fx_buf = [[0, 0, 1, 0], [0, 0, 0, 1], [0, 0, 0, 0], [0, 0, 0, 0]],
      fu_buf = [[0, 0], [0, 0], [0, 0], [0, 0]]\<rparr>"
  apply (simp add: two_slider_solver_def two_slider_scene_def Pinocchio_AssignScene_def Let_def
      PinocchioDynamicsSolver_def get_num_state_derivative_def setZero_def update_block_def
      cols_def euclidean_model_def)
  apply (simp add: numeral_eq_Suc upt_rec)
  done

lemma two_slider_fresh_calls:
  "fst (Pinocchio_f two_slider_solver [1, 2, 3, 4] [5, 6]) = Inr [3, 4, 5, 6]"
  "fst (Pinocchio_fx two_slider_solver [1, 2, 3, 4] [5, 6]) =
     Inr [[0, 0, 1, 0], [0, 0, 0, 1], [0, 0, 0, 0], [0, 0, 0, 0]]"
  "fst (Pinocchio_fu two_slider_solver [1, 2, 3, 4] [5, 6]) =
     Inr [[0, 0], [0, 0], [1, 0], [0, 1]]"
    apply (simp_all add: two_slider_solver_eq Pinocchio_f_def Pinocchio_fx_def Pinocchio_fu_def
      Pinocchio_ComputeDerivatives_def Let_def block_fits_def rows_def cols_def
      update_block_def head_def tail_def set_head_def set_tail_def euclidean_model_def)
    apply (simp_all add: numeral_eq_Suc upt_rec)
  done

subsection \<open>Binding\<close>

text \<open>
  C8. \<open>AssignScene\<close> of the generic solver takes the engine model of the scene only when
  the controlled base type is \<open>FIXED\<close>. For every other base type (\<open>FLOATING\<close>,
  \<open>PLANAR\<close>) it throws a configuration error and leaves the solver as it was: no
  dimension field and no buffer has been set.
\<close>

theorem pinocchio_AssignScene_fixed_base_only:
  "(GetControlledBaseType sc = FIXED \<longrightarrow>
      fst (Pinocchio_AssignScene sc s) = Inr () \<and>
      model (snd (Pinocchio_AssignScene sc s)) = GetRobotModel sc) \<and>
   (GetControlledBaseType sc \<noteq> FIXED \<longrightarrow>
      Pinocchio_AssignScene sc s = (Inl UnknownBaseType, s) \<and>
      is_ConfigurationError UnknownBaseType)"
  by (simp add: Pinocchio_AssignScene_def Let_def)

theorem pinocchio_AssignScene_fixed_base_only_witness:
  "Pinocchio_AssignScene
      \<lparr>GetNumControlledJoints = 2, GetControlledBaseType = FLOATING,
       GetRobotModel = euclidean_model 2\<rparr> PinocchioDynamicsSolver =
     (Inl UnknownBaseType, PinocchioDynamicsSolver) \<and>
   Pinocchio_AssignScene
      \<lparr>GetNumControlledJoints = 2, GetControlledBaseType = PLANAR,
       GetRobotModel = euclidean_model 2\<rparr> PinocchioDynamicsSolver =
     (Inl UnknownBaseType, PinocchioDynamicsSolver) \<and>
   fst (Pinocchio_AssignScene
      \<lparr>GetNumControlledJoints = 2, GetControlledBaseType = FIXED,
       GetRobotModel = euclidean_model 2\<rparr> PinocchioDynamicsSolver) = Inr () \<and>
   model (snd (Pinocchio_AssignScene
      \<lparr>GetNumControlledJoints = 2, GetControlledBaseType = FIXED,
       GetRobotModel = euclidean_model 2\<rparr> PinocchioDynamicsSolver)) = euclidean_model 2"
  using pinocchio_AssignScene_fixed_base_only
          [of "\<lparr>GetNumControlledJoints = 2, GetControlledBaseType = FLOATING,
                GetRobotModel = euclidean_model 2\<rparr>" PinocchioDynamicsSolver]
        pinocchio_AssignScene_fixed_base_only
          [of "\<lparr>GetNumControlledJoints = 2, GetControlledBaseType = PLANAR,
                GetRobotModel = euclidean_model 2\<rparr>" PinocchioDynamicsSolver]
        pinocchio_AssignScene_fixed_base_only
          [of "\<lparr>GetNumControlledJoints = 2, GetControlledBaseType = FIXED,
                GetRobotModel = euclidean_model 2\<rparr>" PinocchioDynamicsSolver]
  by simp

subsection \<open>The structural block of the state Jacobian\<close>

lemma top_rows_eq:
  assumes "bound_to m s" and "bound_to m s'"
  shows "take (nv m) (fx_buf s') = take (nv m) (fx_buf s)"
proof (rule nth_equalityI)
  show "length (take (nv m) (fx_buf s')) = length (take (nv m) (fx_buf s))"
    using assms by (simp add: bound_to_def)
next
  fix i assume "i < length (take (nv m) (fx_buf s'))"
  then have i: "i < nv m" by simp
  have "fx_buf s' ! i = fx_buf s ! i"
  proof (rule nth_equalityI)
    show "length (fx_buf s' ! i) = length (fx_buf s ! i)"
      using assms i by (simp add: bound_to_def)
  next
    fix j assume "j < length (fx_buf s' ! i)"
    with assms i have "j < 2 * nv m" by (simp add: bound_to_def)
    with assms i show "fx_buf s' ! i ! j = fx_buf s ! i ! j" by (simp add: bound_to_def)
  qed
  with i show "take (nv m) (fx_buf s') ! i = take (nv m) (fx_buf s) ! i" by simp
qed

text \<open>
  C4. Right after a successful \<open>AssignScene\<close> the buffer \<open>fx_\<close> is \<open>2 nv \<times> 2 nv\<close>, its
  top-right \<open>nv \<times> nv\<close> block is the identity and every other coefficient is zero. After
  any sequence of \<open>f\<close>, \<open>fx\<close> and \<open>fu\<close> calls the top-right block is still the identity;
  indeed the top \<open>nv\<close> rows are those \<open>AssignScene\<close> wrote.
\<close>

theorem pinocchio_fx_identity_block:
  assumes "Pinocchio_AssignScene sc s0 = (Inr (), s)"
  shows "length (fx_buf s) = 2 * num_velocities s \<and>
    (\<forall>i < 2 * num_velocities s. length (fx_buf s ! i) = 2 * num_velocities s) \<and>
    (\<forall>i < 2 * num_velocities s. \<forall>j < 2 * num_velocities s.
       fx_buf s ! i ! j = (if i < num_velocities s \<and> j = num_velocities s + i then 1 else 0)) \<and>
    (\<forall>i < num_velocities s. \<forall>j < num_velocities s.
       fx_buf (run_calls cs s) ! i ! (num_velocities s + j) = (if i = j then 1 else 0)) \<and>
    take (num_velocities s) (fx_buf (run_calls cs s)) = take (num_velocities s) (fx_buf s)"
proof -
  note f = AssignScene_fields [OF assms]
  have n: "num_velocities s = nv (model s)" by (rule f(4))
  have b: "bound_to (model s) s" by (rule AssignScene_bound [OF assms])
  have b': "bound_to (model s) (run_calls cs s)" by (rule run_calls_preserves [OF b])
  have 1: "length (fx_buf s) = 2 * num_velocities s"
    using b n by (simp add: bound_to_def)
  have 2: "\<forall>i < 2 * num_velocities s. length (fx_buf s ! i) = 2 * num_velocities s"
    using b n by (simp add: bound_to_def)
  have 3: "\<forall>i < 2 * num_velocities s. \<forall>j < 2 * num_velocities s.
       fx_buf s ! i ! j = (if i < num_velocities s \<and> j = num_velocities s + i then 1 else 0)"
    unfolding n by (subst f(7)) (auto simp: nth_update_block)
  have 4: "\<forall>i < num_velocities s. \<forall>j < num_velocities s.
       fx_buf (run_calls cs s) ! i ! (num_velocities s + j) = (if i = j then 1 else 0)"
    using b' n by (simp add: bound_to_def)
  have 5: "take (num_velocities s) (fx_buf (run_calls cs s)) = take (num_velocities s) (fx_buf s)"
    unfolding n by (rule top_rows_eq [OF b b'])
  from 1 2 3 4 5 show ?thesis by blast
qed

theorem pinocchio_fx_identity_block_witness:
  "fx_buf two_slider_solver = [[0, 0, 1, 0], [0, 0, 0, 1], [0, 0, 0, 0], [0, 0, 0, 0]] \<and>
   take 2 (fx_buf (run_calls [Call_fx [1, 2, 3, 4] [5, 6], Call_f [0, 1, 0, 1] [2, 3],
                               Call_fu [4, 3, 2, 1] [0, 0]] two_slider_solver)) =
     [[0, 0, 1, 0], [0, 0, 0, 1]]"
  using pinocchio_fx_identity_block [OF two_slider_bound,
          of "[Call_fx [1, 2, 3, 4] [5, 6], Call_f [0, 1, 0, 1] [2, 3], Call_fu [4, 3, 2, 1] [0, 0]]"]
  by (simp add: two_slider_solver_eq)

subsection \<open>Independence of the call history\<close>

lemma f_history_free:
  assumes "bound_to m s" and "bound_to m s'"
  shows "fst (Pinocchio_f s x u) = fst (Pinocchio_f s' x u)"
  by (simp add: f_bound [OF assms(1)] f_bound [OF assms(2)])

lemma fx_history_free:
  assumes "bound_to m s" and "bound_to m s'"
  shows "fst (Pinocchio_fx s x u) = fst (Pinocchio_fx s' x u)"
proof (cases "length x < nq m \<or> length x < nv m")
  case True
  then show ?thesis
    by (simp add: Pinocchio_fx_def ComputeDerivatives_bound [OF assms(1)]
        ComputeDerivatives_bound [OF assms(2)])
next
  case False
  let ?dq = "\<lambda>i j (old::real). aba_partial_dq m (head (nq m) x) (tail (nv m) x) u i j"
  let ?dv = "\<lambda>i j (old::real). aba_partial_dv m (head (nq m) x) (tail (nv m) x) u i j"
  let ?A = "\<lambda>M. update_block (nv m) (nv m) (nv m) (nv m) ?dv
              (update_block (nv m) 0 (nv m) (nv m) ?dq M)"
  have "?A (fx_buf s) = ?A (fx_buf s')"
  proof (rule matrix_eqI)
    show "length (?A (fx_buf s)) = length (?A (fx_buf s'))"
      using assms by (simp add: bound_to_def)
  next
    fix i assume "i < length (?A (fx_buf s))"
    then show "length (?A (fx_buf s) ! i) = length (?A (fx_buf s') ! i)"
      using assms by (simp add: bound_to_def)
  next
    fix i j assume "i < length (?A (fx_buf s))" and "j < length (?A (fx_buf s) ! i)"
    then have i: "i < 2 * nv m" and j: "j < 2 * nv m"
      using assms by (simp_all add: bound_to_def)
    from i j assms have l: "i < length (fx_buf s)" "j < length (fx_buf s ! i)"
      "i < length (fx_buf s')" "j < length (fx_buf s' ! i)"
      by (simp_all add: bound_to_def)
    have top: "fx_buf s ! i ! j = fx_buf s' ! i ! j" if "i < nv m"
      using that j assms by (simp add: bound_to_def)
    show "?A (fx_buf s) ! i ! j = ?A (fx_buf s') ! i ! j"
      using l top i j by (simp add: nth_update_block) linarith
  qed
  with False show ?thesis
    by (simp add: Pinocchio_fx_def ComputeDerivatives_bound [OF assms(1)]
        ComputeDerivatives_bound [OF assms(2)])
qed

lemma fu_history_free:
  assumes "bound_to m s" and "bound_to m s'"
  shows "fst (Pinocchio_fu s x u) = fst (Pinocchio_fu s' x u)"
proof (cases "length x < nq m \<or> length x < nv m")
  case True
  then show ?thesis
    by (simp add: Pinocchio_fu_def ComputeDerivatives_bound [OF assms(1)]
        ComputeDerivatives_bound [OF assms(2)])
next
  case False
  let ?dtau = "\<lambda>i j (old::real). aba_partial_dtau m (head (nq m) x) (tail (nv m) x) u i j"
  let ?A = "\<lambda>M. update_block (nv m) 0 (nv m) (nv m) ?dtau M"
  have "?A (fu_buf s) = ?A (fu_buf s')"
  proof (rule matrix_eqI)
    show "length (?A (fu_buf s)) = length (?A (fu_buf s'))"
      using assms by (simp add: bound_to_def)
  next
    fix i assume "i < length (?A (fu_buf s))"
    then show "length (?A (fu_buf s) ! i) = length (?A (fu_buf s') ! i)"
      using assms by (simp add: bound_to_def)
  next
    fix i j assume "i < length (?A (fu_buf s))" and "j < length (?A (fu_buf s) ! i)"
    then have i: "i < 2 * nv m" and j: "j < nv m"
      using assms by (simp_all add: bound_to_def)
    from i j assms have l: "i < length (fu_buf s)" "j < length (fu_buf s ! i)"
      "i < length (fu_buf s')" "j < length (fu_buf s' ! i)"
      by (simp_all add: bound_to_def)
    have top: "fu_buf s ! i ! j = fu_buf s' ! i ! j" if "i < nv m"
      using that j assms by (simp add: bound_to_def)
    show "?A (fu_buf s) ! i ! j = ?A (fu_buf s') ! i ! j"
      using l top i j by (simp add: nth_update_block)
  qed
  with False show ?thesis
    by (simp add: Pinocchio_fu_def ComputeDerivatives_bound [OF assms(1)]
        ComputeDerivatives_bound [OF assms(2)])
qed

text \<open>
  C10. On a bound generic solver the value that \<open>f\<close>, \<open>fx\<close> or \<open>fu\<close> returns depends on
  the arguments of that call and on the bound model only: two solvers bound to the same
  model return the same value for the same \<open>(x, u)\<close> whatever calls each of them has
  served before. The engine is a function of the model and of the arguments it is passed
  and fills every coefficient of the blocks it is given.
\<close>

theorem pinocchio_calls_history_insensitive:
  assumes "Pinocchio_AssignScene sc s0 = (Inr (), s)"
    and "Pinocchio_AssignScene sc' s0' = (Inr (), s')"
    and "GetRobotModel sc = GetRobotModel sc'"
  shows "fst (Pinocchio_f (run_calls cs s) x u) = fst (Pinocchio_f (run_calls cs' s') x u) \<and>
         fst (Pinocchio_fx (run_calls cs s) x u) = fst (Pinocchio_fx (run_calls cs' s') x u) \<and>
         fst (Pinocchio_fu (run_calls cs s) x u) = fst (Pinocchio_fu (run_calls cs' s') x u)"
proof -
  have m: "model s' = model s"
    using AssignScene_fields(2) [OF assms(1)] AssignScene_fields(2) [OF assms(2)] assms(3)
    by simp
  have b: "bound_to (model s) (run_calls cs s)"
    by (rule run_calls_preserves [OF AssignScene_bound [OF assms(1)]])
  have b': "bound_to (model s) (run_calls cs' s')"
    using run_calls_preserves [OF AssignScene_bound [OF assms(2)]] m by simp
  from f_history_free [OF b b'] fx_history_free [OF b b'] fu_history_free [OF b b']
  show ?thesis by blast
qed

theorem pinocchio_calls_history_insensitive_witness:
  "fst (Pinocchio_f (run_calls [Call_fx [1, 2, 3, 4] [5, 6], Call_f [0, 1, 0, 1] [2, 3],
                                 Call_fu [4, 3, 2, 1] [0, 0]] two_slider_solver)
          [1, 2, 3, 4] [5, 6]) = Inr [3, 4, 5, 6] \<and>
   fst (Pinocchio_fx (run_calls [Call_fx [1, 2, 3, 4] [5, 6], Call_f [0, 1, 0, 1] [2, 3],
                                 Call_fu [4, 3, 2, 1] [0, 0]] two_slider_solver)
          [1, 2, 3, 4] [5, 6]) = Inr [[0, 0, 1, 0], [0, 0, 0, 1], [0, 0, 0, 0], [0, 0, 0, 0]] \<and>
   fst (Pinocchio_fu (run_calls [Call_fx [1, 2, 3, 4] [5, 6], Call_f [0, 1, 0, 1] [2, 3],
                                 Call_fu [4, 3, 2, 1] [0, 0]] two_slider_solver)
          [1, 2, 3, 4] [5, 6]) = Inr [[0, 0], [0, 0], [1, 0], [0, 1]]"
  using pinocchio_calls_history_insensitive [OF two_slider_bound two_slider_bound refl,
          of "[Call_fx [1, 2, 3, 4] [5, 6], Call_f [0, 1, 0, 1] [2, 3], Call_fu [4, 3, 2, 1] [0, 0]]"
             "[1, 2, 3, 4]" "[5, 6]" "[]"]
  by (simp add: two_slider_fresh_calls run_calls_def)

subsection \<open>The Jacobian of the state difference\<close>

text \<open>
  C5. For states of the bound size, \<open>dStateDelta\<close> returns for \<open>ARG0\<close> a matrix whose
  bottom-right (velocity) block is the identity and for \<open>ARG1\<close> one whose bottom-right
  block is its negation. The top-left (configuration) block is the engine's Jacobian of
  \<open>difference(q_2, q_1)\<close>, the configurations in flipped order, taken in the slot where
  the state of the derivative stands: the engine's \<open>ARG1\<close> for the first state \<open>x_1\<close>,
  the engine's \<open>ARG0\<close> for the second state \<open>x_2\<close>.
\<close>

theorem pinocchio_dStateDelta_blocks:
  assumes "length x_1 = num_positions s + num_velocities s"
    and "length x_2 = num_positions s + num_velocities s"
  shows "\<exists>J0 J1. Pinocchio_dStateDelta s x_1 x_2 ARG0 = Inr J0 \<and>
     Pinocchio_dStateDelta s x_1 x_2 ARG1 = Inr J1 \<and>
     (\<forall>i < num_velocities s. \<forall>j < num_velocities s.
        J0 ! (num_velocities s + i) ! (num_velocities s + j) = (if i = j then 1 else 0) \<and>
        J1 ! (num_velocities s + i) ! (num_velocities s + j) =
          - J0 ! (num_velocities s + i) ! (num_velocities s + j) \<and>
        J0 ! i ! j =
          dDifference (model s) (head (num_positions s) x_2) (head (num_positions s) x_1) ARG1 i j \<and>
        J1 ! i ! j =
          dDifference (model s) (head (num_positions s) x_2) (head (num_positions s) x_1) ARG0 i j)"
proof -
  let ?n = "num_velocities s" and ?np = "num_positions s"
  let ?E = "Identity (2 * ?n) (2 * ?n)"
  let ?d = "\<lambda>a i j (old::real). dDifference (model s) (head ?np x_2) (head ?np x_1) a i j"
  let ?Ja = "update_block 0 0 ?n ?n (?d ARG1) ?E"
  let ?B = "update_block 0 0 ?n ?n (?d ARG0) ?E"
  let ?Jb = "update_block (rows ?B - ?n) (cols ?B - ?n) ?n ?n (\<lambda>i j old. old * (- 1)) ?B"
  have 0: "Pinocchio_dStateDelta s x_1 x_2 ARG0 = Inr ?Ja"
    using assms by (simp add: Pinocchio_dStateDelta_def Let_def)
  have 1: "Pinocchio_dStateDelta s x_1 x_2 ARG1 = Inr ?Jb"
    using assms by (simp add: Pinocchio_dStateDelta_def Let_def)
  have e: "?Ja ! (?n + i) ! (?n + j) = (if i = j then 1 else 0) \<and>
        ?Jb ! (?n + i) ! (?n + j) = - ?Ja ! (?n + i) ! (?n + j) \<and>
        ?Ja ! i ! j = ?d ARG1 i j 0 \<and> ?Jb ! i ! j = ?d ARG0 i j 0"
    if "i < ?n" and "j < ?n" for i j
  proof -
    from that have pos: "0 < ?n" by simp
    then have ne: "?B \<noteq> []"
      by (metis length_0_conv length_Identity length_update_block mult_pos_pos neq0_conv
          zero_less_numeral)
    have r: "rows ?B - ?n = ?n" by (simp add: rows_def)
    have c: "cols ?B - ?n = ?n" using pos by (simp add: cols_nth [OF ne])
    from that show ?thesis
      unfolding r c by (simp add: nth_update_block nth_Identity)
  qed
  from 0 1 e show ?thesis by blast
qed

theorem pinocchio_dStateDelta_blocks_witness:
  "Pinocchio_dStateDelta two_slider_solver [1, 2, 3, 4] [0, 0, 0, 0] ARG0 =
     Inr [[1, 0, 0, 0], [0, 1, 0, 0], [0, 0, 1, 0], [0, 0, 0, 1]] \<and>
   projr (Pinocchio_dStateDelta two_slider_solver [1, 2, 3, 4] [0, 0, 0, 0] ARG1) ! 2 ! 2 = - 1 \<and>
   projr (Pinocchio_dStateDelta two_slider_solver [1, 2, 3, 4] [0, 0, 0, 0] ARG1) ! 3 ! 2 = 0 \<and>
   projr (Pinocchio_dStateDelta two_slider_solver [1, 2, 3, 4] [0, 0, 0, 0] ARG1) ! 0 ! 0 = - 1"
proof -
  let ?S = two_slider_solver
  have n: "num_velocities ?S = 2" "num_positions ?S = 2" "model ?S = euclidean_model 2"
    by (simp_all add: two_slider_solver_eq)
  have a0: "Pinocchio_dStateDelta ?S [1, 2, 3, 4] [0, 0, 0, 0] ARG0 =
     Inr [[1, 0, 0, 0], [0, 1, 0, 0], [0, 0, 1, 0], [0, 0, 0, 1]]"
    apply (simp add: two_slider_solver_eq Pinocchio_dStateDelta_def Let_def Identity_def
        update_block_def head_def euclidean_model_def)
    apply (simp add: numeral_eq_Suc upt_rec)
    done
  have "\<exists>J0 J1. Pinocchio_dStateDelta ?S [1, 2, 3, 4] [0, 0, 0, 0] ARG0 = Inr J0 \<and>
     Pinocchio_dStateDelta ?S [1, 2, 3, 4] [0, 0, 0, 0] ARG1 = Inr J1 \<and>
     (\<forall>i < num_velocities ?S. \<forall>j < num_velocities ?S.
        J0 ! (num_velocities ?S + i) ! (num_velocities ?S + j) = (if i = j then 1 else 0) \<and>
        J1 ! (num_velocities ?S + i) ! (num_velocities ?S + j) =
          - J0 ! (num_velocities ?S + i) ! (num_velocities ?S + j) \<and>
        J0 ! i ! j =
          dDifference (model ?S) (head (num_positions ?S) [0, 0, 0, 0])
            (head (num_positions ?S) [1, 2, 3, 4]) ARG1 i j \<and>
        J1 ! i ! j =
          dDifference (model ?S) (head (num_positions ?S) [0, 0, 0, 0])
            (head (num_positions ?S) [1, 2, 3, 4]) ARG0 i j)"
    by (rule pinocchio_dStateDelta_blocks) (simp_all add: n)
  then obtain J0 J1 where J0: "Pinocchio_dStateDelta ?S [1, 2, 3, 4] [0, 0, 0, 0] ARG0 = Inr J0"
    and J1: "Pinocchio_dStateDelta ?S [1, 2, 3, 4] [0, 0, 0, 0] ARG1 = Inr J1"
    and e: "\<forall>i < 2. \<forall>j < 2.
        J1 ! (2 + i) ! (2 + j) = - J0 ! (2 + i) ! (2 + j) \<and>
        J1 ! i ! j = dDifference (euclidean_model 2) (head 2 [0, 0, 0, 0]) (head 2 [1, 2, 3, 4]) ARG0 i j"
    unfolding n by blast
  from J0 a0 have J0': "J0 = [[1, 0, 0, 0], [0, 1, 0, 0], [0, 0, 1, 0], [0, 0, 0, 1]]"
    by simp
  from e [rule_format, of 0 0] e [rule_format, of 1 0] J1 a0 show ?thesis
    by (simp add: J0' euclidean_model_def)
qed

subsection \<open>Difference and integration\<close>

lemma map2_add_sub_cancel:
  fixes a b :: "real list"
  assumes "length a = length b"
  shows "map2 (+) b (map2 (-) a b) = a"
  using assms by (intro nth_equalityI) simp_all

lemma StateDelta_sized:
  assumes "length x_1 = num_positions s + num_velocities s"
    and "length x_2 = num_positions s + num_velocities s"
  shows "Pinocchio_StateDelta s x_1 x_2 =
     Inr (map (difference (model s) (head (num_positions s) x_2) (head (num_positions s) x_1))
            [0..<num_velocities s] @
          map2 (-) (tail (num_velocities s) x_1) (tail (num_velocities s) x_2))"
  using assms by (simp add: Pinocchio_StateDelta_def Let_def set_head_def set_tail_def tail_def)

lemma Integrate_sized:
  assumes "length x = num_positions s + num_velocities s"
    and "length xout = num_positions s + num_velocities s"
    and "length d1 = num_velocities s" and "length d2 = num_velocities s"
  shows "Pinocchio_Integrate s x (d1 @ d2) 1 xout =
     Inr (map (integrate (model s) (head (num_positions s) x) d1) [0..<num_positions s] @
          map2 (+) (tail (num_velocities s) x) d2)"
  using assms
  by (simp add: Pinocchio_Integrate_def Let_def set_head_def set_tail_def tail_def head_def)

text \<open>
  The round trip with the arguments of \<open>StateDelta\<close> as \<open>(x2, x1)\<close> fails:
  \<open>StateDelta(x2, x1)\<close> is \<open>x2 - x1\<close>, and integrating it from \<open>x2\<close> moves away from
  \<open>x1\<close>. With \<open>x1 = [0, 0, 0, 0]\<close> and \<open>x2 = [1, 0, 0, 0]\<close> on two sliding masses the result
  is \<open>[2, 0, 0, 0]\<close>. The cart-pole solver's \<open>StateDelta\<close> gives the same difference.
\<close>

theorem integrate_state_delta_swapped_counterexample:
  "Pinocchio_StateDelta two_slider_solver [1, 0, 0, 0] [0, 0, 0, 0] = Inr [1, 0, 0, 0] \<and>
   Pinocchio_Integrate two_slider_solver [1, 0, 0, 0] [1, 0, 0, 0] 1 [0, 0, 0, 0] =
     Inr [2, 0, 0, 0] \<and>
   Pinocchio_Integrate two_slider_solver [1, 0, 0, 0] [1, 0, 0, 0] 1 [0, 0, 0, 0] \<noteq>
     Inr [0, 0, 0, 0] \<and>
   Cartpole_StateDelta [1, 0, 0, 0] [0, 0, 0, 0] = Inr [1, 0, 0, 0]"
  apply (simp add: two_slider_solver_eq Pinocchio_StateDelta_def Pinocchio_Integrate_def Let_def
      head_def tail_def set_head_def set_tail_def euclidean_model_def Cartpole_StateDelta_def)
  apply (simp add: numeral_eq_Suc upt_rec)
  done

text \<open>
  C1, amended. The round trip holds with the difference taken from \<open>x2\<close> to \<open>x1\<close>:
  for states \<open>x1\<close>, \<open>x2\<close> of the bound size, \<open>StateDelta(x1, x2)\<close> succeeds and
  \<open>Integrate(x2, StateDelta(x1, x2), 1)\<close> has the velocity block of \<open>x1\<close> exactly and, as
  configuration block, the engine's \<open>integrate(q2, difference(q2, q1))\<close>, which is \<open>q1\<close> up
  to the manifold's own normalisation; on a Euclidean configuration space, where the
  engine's difference and integration are the plain vector ones, the result is \<open>x1\<close>
  exactly. For the cart-pole solver, whose \<open>Integrate\<close> is the base class's and not
  among the sources, \<open>StateDelta(x1, x2)\<close> is the plain difference, so that
  \<open>x2 + 1 * StateDelta(x1, x2) = x1\<close>.
\<close>

theorem pinocchio_integrate_state_delta_roundtrip:
  assumes "length x1 = num_positions s + num_velocities s"
    and "length x2 = num_positions s + num_velocities s"
    and "length xout = num_positions s + num_velocities s"
  shows "\<exists>dx. Pinocchio_StateDelta s x1 x2 = Inr dx \<and>
     Pinocchio_Integrate s x2 dx 1 xout =
       Inr (map (integrate (model s) (head (num_positions s) x2)
                   (map (difference (model s) (head (num_positions s) x2)
                           (head (num_positions s) x1)) [0..<num_velocities s]))
              [0..<num_positions s] @
            tail (num_velocities s) x1) \<and>
     (difference (model s) = (\<lambda>q0 q1 i. q1 ! i - q0 ! i) \<and>
      integrate (model s) = (\<lambda>q v i. q ! i + v ! i) \<and>
      num_positions s = num_velocities s \<longrightarrow>
        Pinocchio_Integrate s x2 dx 1 xout = Inr x1) \<and>
     (length y1 = length y2 \<longrightarrow>
        (\<exists>d. Cartpole_StateDelta y1 y2 = Inr d \<and> map2 (+) y2 (map (\<lambda>c. 1 * c) d) = y1))"
proof -
  let ?n = "num_velocities s" and ?np = "num_positions s"
  let ?d1 = "map (difference (model s) (head ?np x2) (head ?np x1)) [0..<?n]"
  let ?d2 = "map2 (-) (tail ?n x1) (tail ?n x2)"
  have sd: "Pinocchio_StateDelta s x1 x2 = Inr (?d1 @ ?d2)"
    by (rule StateDelta_sized [OF assms(1,2)])
  have l2: "length ?d2 = ?n"
    using assms by (simp add: tail_def)
  have vel: "map2 (+) (tail ?n x2) ?d2 = tail ?n x1"
    by (rule map2_add_sub_cancel) (use assms in \<open>simp add: tail_def\<close>)
  have int: "Pinocchio_Integrate s x2 (?d1 @ ?d2) 1 xout =
       Inr (map (integrate (model s) (head ?np x2) ?d1) [0..<?np] @ tail ?n x1)"
    using Integrate_sized [OF assms(2,3) _ l2, of ?d1] vel by simp
  have euc: "map (integrate (model s) (head ?np x2) ?d1) [0..<?np] @ tail ?n x1 = x1"
    if m: "difference (model s) = (\<lambda>q0 q1 i. q1 ! i - q0 ! i)"
      "integrate (model s) = (\<lambda>q v i. q ! i + v ! i)" and np: "?np = ?n"
  proof -
    have "map (integrate (model s) (head ?np x2) ?d1) [0..<?np] = take ?n x1"
      using assms by (intro nth_equalityI) (simp_all add: m np head_def)
    moreover have "tail ?n x1 = drop ?n x1"
      using assms by (simp add: tail_def np)
    ultimately show ?thesis by simp
  qed
  have cart: "\<exists>d. Cartpole_StateDelta y1 y2 = Inr d \<and> map2 (+) y2 (map (\<lambda>c. 1 * c) d) = y1"
    if "length y1 = length y2"
    using that by (simp add: Cartpole_StateDelta_def map2_add_sub_cancel)
  from sd int euc cart show ?thesis by auto
qed

theorem pinocchio_integrate_state_delta_roundtrip_witness:
  "Pinocchio_StateDelta two_slider_solver [0, 0, 0, 0] [1, 0, 0, 0] = Inr [- 1, 0, 0, 0] \<and>
   Pinocchio_Integrate two_slider_solver [1, 0, 0, 0] [- 1, 0, 0, 0] 1 [9, 9, 9, 9] =
     Inr [0, 0, 0, 0]"
proof -
  let ?S = two_slider_solver
  have sd: "Pinocchio_StateDelta ?S [0, 0, 0, 0] [1, 0, 0, 0] = Inr [- 1, 0, 0, 0]"
    apply (simp add: two_slider_solver_eq Pinocchio_StateDelta_def Let_def
      head_def tail_def set_head_def set_tail_def euclidean_model_def)
    apply (simp add: numeral_eq_Suc upt_rec)
    done
  have "\<exists>dx. Pinocchio_StateDelta ?S [0, 0, 0, 0] [1, 0, 0, 0] = Inr dx \<and>
     Pinocchio_Integrate ?S [1, 0, 0, 0] dx 1 [9, 9, 9, 9] =
       Inr (map (integrate (model ?S) (head (num_positions ?S) [1, 0, 0, 0])
                   (map (difference (model ?S) (head (num_positions ?S) [1, 0, 0, 0])
                           (head (num_positions ?S) [0, 0, 0, 0]))
                      [0..<num_velocities ?S]))
              [0..<num_positions ?S] @
            tail (num_velocities ?S) [0, 0, 0, 0]) \<and>
     (difference (model ?S) = (\<lambda>q0 q1 i. q1 ! i - q0 ! i) \<and>
      integrate (model ?S) = (\<lambda>q v i. q ! i + v ! i) \<and>
      num_positions ?S = num_velocities ?S \<longrightarrow>
        Pinocchio_Integrate ?S [1, 0, 0, 0] dx 1 [9, 9, 9, 9] = Inr [0, 0, 0, 0]) \<and>
     (length [0, 0, 0, 0 :: real] = length [1, 0, 0, 0 :: real] \<longrightarrow>
        (\<exists>d. Cartpole_StateDelta [0, 0, 0, 0] [1, 0, 0, 0] = Inr d \<and>
             map2 (+) [1, 0, 0, 0] (map (\<lambda>c. 1 * c) d) = [0, 0, 0, 0]))"
    by (rule pinocchio_integrate_state_delta_roundtrip) (simp_all add: two_slider_solver_eq)
  then obtain dx where dx: "Pinocchio_StateDelta ?S [0, 0, 0, 0] [1, 0, 0, 0] = Inr dx"
    and e: "difference (model ?S) = (\<lambda>q0 q1 i. q1 ! i - q0 ! i) \<and>
      integrate (model ?S) = (\<lambda>q v i. q ! i + v ! i) \<and>
      num_positions ?S = num_velocities ?S \<longrightarrow>
        Pinocchio_Integrate ?S [1, 0, 0, 0] dx 1 [9, 9, 9, 9] = Inr [0, 0, 0, 0]"
    by blast
  from dx sd have "dx = [- 1, 0, 0, 0]" by simp
  moreover have "difference (model ?S) = (\<lambda>q0 q1 i. q1 ! i - q0 ! i) \<and>
      integrate (model ?S) = (\<lambda>q v i. q ! i + v ! i) \<and>
      num_positions ?S = num_velocities ?S"
    by (simp add: two_slider_solver_eq euclidean_model_def)
  ultimately show ?thesis using e sd by blast
qed

section \<open>Sizes of the arguments of \<open>f\<close>, \<open>fx\<close> and \<open>fu\<close>\<close>

lemma pinocchio_bound_outcomes:
  assumes "bound_to m s"
  shows "length x < nq m \<or> length x < nv m \<Longrightarrow> fst (Pinocchio_f s x u) = Inl EigenAssertion"
    and "length x < nq m \<or> length x < nv m \<Longrightarrow> fst (Pinocchio_fx s x u) = Inl EigenAssertion"
    and "length x < nq m \<or> length x < nv m \<Longrightarrow> fst (Pinocchio_fu s x u) = Inl EigenAssertion"
    and "nq m \<le> length x \<Longrightarrow> nv m \<le> length x \<Longrightarrow> \<exists>y. fst (Pinocchio_f s x u) = Inr y"
    and "nq m \<le> length x \<Longrightarrow> nv m \<le> length x \<Longrightarrow> \<exists>A. fst (Pinocchio_fx s x u) = Inr A"
    and "nq m \<le> length x \<Longrightarrow> nv m \<le> length x \<Longrightarrow> \<exists>B. fst (Pinocchio_fu s x u) = Inr B"
  by (auto simp: f_bound [OF assms] Pinocchio_fx_def Pinocchio_fu_def
      ComputeDerivatives_bound [OF assms] split: if_splits)

text \<open>
  A vector of the wrong size is not refused. The cart-pole \<open>f\<close> returns normally on a
  state of five coefficients and on a control of two; the generic \<open>f\<close> bound to two
  sliding masses returns normally on a state of five coefficients, of which it passes the
  first two and the last two to the engine, with a control of the bound size.
\<close>

theorem f_size_mismatch_counterexample:
  "length [0, 0, 0, 0, 0 :: real] \<noteq>
     num_positions (CartpoleDynamicsSolver 1 (1 / 10) (1 / 2) (981 / 100)) +
     num_velocities (CartpoleDynamicsSolver 1 (1 / 10) (1 / 2) (981 / 100)) \<and>
   Cartpole_f (CartpoleDynamicsSolver 1 (1 / 10) (1 / 2) (981 / 100)) [0, 0, 0, 0, 0] [0] =
     Inr [0, 0, 0, 0] \<and>
   length [0, 7 :: real] \<noteq> num_controls (CartpoleDynamicsSolver 1 (1 / 10) (1 / 2) (981 / 100)) \<and>
   Cartpole_f (CartpoleDynamicsSolver 1 (1 / 10) (1 / 2) (981 / 100)) [0, 0, 0, 0] [0, 7] =
     Inr [0, 0, 0, 0] \<and>
   length [9, 1, 2, 3, 4 :: real] \<noteq>
     num_positions two_slider_solver + num_velocities two_slider_solver \<and>
   length [5, 6 :: real] = num_controls two_slider_solver \<and>
   fst (Pinocchio_f two_slider_solver [9, 1, 2, 3, 4] [5, 6]) = Inr [3, 4, 5, 6]"
  apply (simp add: Cartpole_f_def CartpoleDynamicsSolver_def two_slider_solver_eq Pinocchio_f_def
      Let_def head_def tail_def set_head_def set_tail_def euclidean_model_def)
  apply (simp add: numeral_eq_Suc upt_rec)
  done

text \<open>
  C2, amended. \<open>f\<close>, \<open>fx\<close> and \<open>fu\<close> of both solvers check no size themselves and throw
  no exception on a size mismatch.

  The cart-pole \<open>f\<close> and \<open>fx\<close> return normally exactly when \<open>x\<close> has at least four
  coefficients and \<open>u\<close> at least one, and \<open>fu\<close> exactly when \<open>x\<close> has at least four: they
  read \<open>x(1)\<close>, \<open>x(2)\<close>, \<open>x(3)\<close> and \<open>u(0)\<close> and ignore the rest. On a shorter vector the read
  is Eigen's out-of-range access (\<open>EigenAssertion\<close>: an assertion in a debug build,
  undefined in a release build), which is no exception of the library.

  The generic \<open>f\<close>, \<open>fx\<close> and \<open>fu\<close>, on a bound solver and with a control of the bound
  size, return normally exactly when \<open>x\<close> has at least \<open>num_positions\<close> and at least
  \<open>num_velocities\<close> coefficients: they pass the head and the tail of a longer state to
  the engine. A shorter state is again Eigen's out-of-range segment. The control is
  handed to the engine unchecked; what the engine does with a control of another size
  is not in the sources and is left open here, for the call and for the calls before it.

  In particular no error is raised under matching sizes.
\<close>

theorem f_fx_fu_check_no_size:
  assumes "Pinocchio_AssignScene sc s0 = (Inr (), s)"
    and "c = CartpoleDynamicsSolver mc mp len grav"
    and "\<forall>k \<in> set cs. length (call_control k) = num_controls s"
    and "length u' = num_controls s"
  shows "(length x < 4 \<or> length u < 1 \<longrightarrow>
            Cartpole_f c x u = Inl EigenAssertion \<and> Cartpole_fx c x u = Inl EigenAssertion) \<and>
         (length x < 4 \<longrightarrow> Cartpole_fu c x u = Inl EigenAssertion) \<and>
         (4 \<le> length x \<and> 1 \<le> length u \<longrightarrow>
            (\<exists>y. Cartpole_f c x u = Inr y) \<and> (\<exists>A. Cartpole_fx c x u = Inr A)) \<and>
         (4 \<le> length x \<longrightarrow> (\<exists>B. Cartpole_fu c x u = Inr B)) \<and>
         (length x = num_positions c + num_velocities c \<and> length u = num_controls c \<longrightarrow>
            (\<exists>y. Cartpole_f c x u = Inr y) \<and> (\<exists>A. Cartpole_fx c x u = Inr A) \<and>
            (\<exists>B. Cartpole_fu c x u = Inr B)) \<and>
         (length x' < num_positions s \<or> length x' < num_velocities s \<longrightarrow>
            fst (Pinocchio_f (run_calls cs s) x' u') = Inl EigenAssertion \<and>
            fst (Pinocchio_fx (run_calls cs s) x' u') = Inl EigenAssertion \<and>
            fst (Pinocchio_fu (run_calls cs s) x' u') = Inl EigenAssertion) \<and>
         (num_positions s \<le> length x' \<and> num_velocities s \<le> length x' \<longrightarrow>
            (\<exists>y. fst (Pinocchio_f (run_calls cs s) x' u') = Inr y) \<and>
            (\<exists>A. fst (Pinocchio_fx (run_calls cs s) x' u') = Inr A) \<and>
            (\<exists>B. fst (Pinocchio_fu (run_calls cs s) x' u') = Inr B)) \<and>
         (length x' = num_positions s + num_velocities s \<longrightarrow>
            (\<exists>y. fst (Pinocchio_f (run_calls cs s) x' u') = Inr y) \<and>
            (\<exists>A. fst (Pinocchio_fx (run_calls cs s) x' u') = Inr A) \<and>
            (\<exists>B. fst (Pinocchio_fu (run_calls cs s) x' u') = Inr B))"
proof -
  have b: "bound_to (model s) (run_calls cs s)"
    by (rule run_calls_preserves [OF AssignScene_bound [OF assms(1)]])
  note f = AssignScene_fields [OF assms(1)]
  note po = pinocchio_bound_outcomes [OF b, of x' u']
  have 1: "length x < 4 \<or> length u < 1 \<longrightarrow>
            Cartpole_f c x u = Inl EigenAssertion \<and> Cartpole_fx c x u = Inl EigenAssertion"
    by (simp add: Cartpole_f_def Cartpole_fx_def)
  have 2: "length x < 4 \<longrightarrow> Cartpole_fu c x u = Inl EigenAssertion"
    by (simp add: Cartpole_fu_def)
  have 3: "4 \<le> length x \<and> 1 \<le> length u \<longrightarrow>
            (\<exists>y. Cartpole_f c x u = Inr y) \<and> (\<exists>A. Cartpole_fx c x u = Inr A)"
    by (simp add: Cartpole_f_def Cartpole_fx_def Let_def)
  have 4: "4 \<le> length x \<longrightarrow> (\<exists>B. Cartpole_fu c x u = Inr B)"
    by (simp add: Cartpole_fu_def Let_def)
  have 5: "length x = num_positions c + num_velocities c \<and> length u = num_controls c \<longrightarrow>
            4 \<le> length x \<and> 1 \<le> length u"
    by (simp add: assms(2) CartpoleDynamicsSolver_def)
  have 6: "length x' < num_positions s \<or> length x' < num_velocities s \<longrightarrow>
            fst (Pinocchio_f (run_calls cs s) x' u') = Inl EigenAssertion \<and>
            fst (Pinocchio_fx (run_calls cs s) x' u') = Inl EigenAssertion \<and>
            fst (Pinocchio_fu (run_calls cs s) x' u') = Inl EigenAssertion"
    using po(1-3) unfolding f(3,4) by blast
  have 7: "num_positions s \<le> length x' \<and> num_velocities s \<le> length x' \<longrightarrow>
            (\<exists>y. fst (Pinocchio_f (run_calls cs s) x' u') = Inr y) \<and>
            (\<exists>A. fst (Pinocchio_fx (run_calls cs s) x' u') = Inr A) \<and>
            (\<exists>B. fst (Pinocchio_fu (run_calls cs s) x' u') = Inr B)"
    using po(4-6) unfolding f(3,4) by blast
  have 8: "length x' = num_positions s + num_velocities s \<longrightarrow>
            num_positions s \<le> length x' \<and> num_velocities s \<le> length x'"
    by simp
  from 1 2 3 4 5 6 7 8 show ?thesis by blast
qed

theorem f_fx_fu_check_no_size_witness:
  "(\<exists>y. Cartpole_f (CartpoleDynamicsSolver 1 (1 / 10) (1 / 2) (981 / 100)) [0, 0, 0, 0] [0] = Inr y) \<and>
   Cartpole_fx (CartpoleDynamicsSolver 1 (1 / 10) (1 / 2) (981 / 100)) [0, 0, 0] [0] =
     Inl EigenAssertion \<and>
   (\<exists>A. fst (Pinocchio_fx (run_calls [Call_f [0, 1, 0, 1] [2, 3]] two_slider_solver)
              [1, 2, 3, 4] [5, 6]) = Inr A) \<and>
   fst (Pinocchio_fu (run_calls [Call_f [0, 1, 0, 1] [2, 3]] two_slider_solver) [1] [5, 6]) =
     Inl EigenAssertion"
  using f_fx_fu_check_no_size [OF two_slider_bound refl,
          where cs = "[Call_f [0, 1, 0, 1] [2, 3]]" and u' = "[5, 6]" and mc = 1 and mp = "1 / 10"
            and len = "1 / 2" and grav = "981 / 100" and x = "[0, 0, 0, 0]" and u = "[0]"
            and x' = "[1, 2, 3, 4]"]
        f_fx_fu_check_no_size [OF two_slider_bound refl,
          where cs = "[Call_f [0, 1, 0, 1] [2, 3]]" and u' = "[5, 6]" and mc = 1 and mp = "1 / 10"
            and len = "1 / 2" and grav = "981 / 100" and x = "[0, 0, 0]" and u = "[0]"
            and x' = "[1]"]
  by (simp add: two_slider_solver_eq)

end
